theory Spec2Isabelle
  imports Complex_Main "HOL-Library.AList" "HOL-Library.Multiset" "HOL-Library.Log_Nat"
begin

section \<open>Data model\<close>

text \<open>
  The marketplace backend keeps its records in \<^verbatim>\<open>MemStorage\<close> (server/storage.ts): six
  JavaScript \<^verbatim>\<open>Map<number, T>\<close> collections and six id counters. A JavaScript \<^verbatim>\<open>Map\<close>
  iterates in insertion order and \<^verbatim>\<open>set\<close> on a present key keeps the key's position, so
  each collection is an association list read by \<^const>\<open>map_of\<close> and written by
  \<^const>\<open>AList.update\<close>.

  Conventions of the embedding:
  \<^item> a JavaScript \<^verbatim>\<open>number\<close> that carries a price or a random draw is the \<^typ>\<open>real\<close> it
    denotes; the sums, the mean and the factor of the predictor are exact, and the
    products and quotients of the prediction endpoint are rounded to doubles;
  \<^item> identifiers (\<^verbatim>\<open>id\<close>, \<^verbatim>\<open>cropTypeId\<close>) are \<^typ>\<open>int\<close>; the field \<^verbatim>\<open>id\<close> of a record is
    \<open>id_crop\<close> or \<open>id_history\<close>, and the counter \<^verbatim>\<open>cropTypeId\<close> of the store is
    \<open>cropTypeId_next\<close>, since \<open>cropTypeId\<close> names the field of a price-history entry;
  \<^item> a \<^verbatim>\<open>Date\<close> is the \<^typ>\<open>int\<close> that \<^verbatim>\<open>getTime()\<close> returns (milliseconds);
  \<^item> \<^verbatim>\<open>Math.random()\<close> reads the next element of a sequence of draws, which every
    function that draws takes as an argument and returns advanced;
  \<^item> every method of the store returns the store it leaves behind next to its result.
\<close>

text \<open>
  Modelled from the spec: the record types \<^verbatim>\<open>CropType\<close> and \<^verbatim>\<open>PriceHistory\<close> are declared in
  the shared schema, which is not part of the sources; their fields are the ones of the
  spec's data model, which are also the ones storage.ts reads and writes.
\<close>

record CropType =
  id_crop :: int
  name :: string

record PriceHistory =
  id_history :: int
  cropTypeId :: int
  location :: string
  price :: real
  quality :: string
  recordedDate :: int

text \<open>The remaining record types of the schema are never inspected by the code below.\<close>

typedecl User
typedecl Listing
typedecl Bid
typedecl BarterOffer

record MemStorage =
  users :: "(int \<times> User) list"
  cropTypes :: "(int \<times> CropType) list"
  listings :: "(int \<times> Listing) list"
  bids :: "(int \<times> Bid) list"
  barterOffers :: "(int \<times> BarterOffer) list"
  priceHistory :: "(int \<times> PriceHistory) list"
  userId :: int
  cropTypeId_next :: int
  listingId :: int
  bidId :: int
  barterOfferId :: int
  priceHistoryId :: int

text \<open>\<^verbatim>\<open>Array.from(m.values())\<close>: the values of a map, in insertion order.\<close>

definition Map_values :: "(int \<times> 'a) list \<Rightarrow> 'a list" where
  "Map_values m = map snd m"

type_synonym rng = "nat \<Rightarrow> real"

text \<open>\<^verbatim>\<open>Math.random()\<close>: the next draw, and the draws that remain.\<close>

definition Math_random :: "rng \<Rightarrow> real \<times> rng" where
  "Math_random rs = (rs 0, \<lambda>k. rs (Suc k))"

section \<open>Price history and the price predictor\<close>

text \<open>
  \<^verbatim>\<open>getPriceHistoryByCropTypeAndLocation\<close>: both comparisons are \<^verbatim>\<open>===\<close>.
\<close>

definition getPriceHistoryByCropTypeAndLocation ::
  "MemStorage \<Rightarrow> int \<Rightarrow> string \<Rightarrow> PriceHistory list \<times> MemStorage" where
  "getPriceHistoryByCropTypeAndLocation s c l =
     (filter (\<lambda>history. cropTypeId history = c \<and> location history = l)
        (Map_values (priceHistory s)), s)"

text \<open>
  \<^verbatim>\<open>qualityHistory.sort((a, b) => time(b) - time(a))\<close>: the comparator orders by
  \<^verbatim>\<open>recordedDate\<close>, latest first, and \<^verbatim>\<open>Array.prototype.sort\<close> is stable; \<^const>\<open>sort_key\<close>
  is a stable insertion sort. The array sorted in place is the fresh one that
  \<^verbatim>\<open>filter\<close> returned.
\<close>

definition sortedHistory :: "PriceHistory list \<Rightarrow> PriceHistory list" where
  "sortedHistory qualityHistory = sort_key (\<lambda>h. - recordedDate h) qualityHistory"

text \<open>\<^verbatim>\<open>sortedHistory.slice(0, Math.min(3, sortedHistory.length))\<close>\<close>

definition recentPrices :: "PriceHistory list \<Rightarrow> PriceHistory list" where
  "recentPrices qualityHistory =
     take (min 3 (length (sortedHistory qualityHistory))) (sortedHistory qualityHistory)"

text \<open>
  \<^verbatim>\<open>recentPrices.reduce((sum, h) => sum + h.price, 0) / recentPrices.length\<close>: the
  prediction before the random factor is applied.
\<close>

definition avgRecentPrice :: "PriceHistory list \<Rightarrow> real" where
  "avgRecentPrice qualityHistory =
     foldl (\<lambda>sum h. sum + price h) 0 (recentPrices qualityHistory)
       / real (length (recentPrices qualityHistory))"

definition predictPrice ::
  "MemStorage \<Rightarrow> rng \<Rightarrow> int \<Rightarrow> string \<Rightarrow> string \<Rightarrow> real \<times> MemStorage \<times> rng" where
  "predictPrice s rs c l q =
     (let (history, s1) = getPriceHistoryByCropTypeAndLocation s c l;
          qualityHistory = filter (\<lambda>h. quality h = q) history
      in if length qualityHistory = 0
         then (20 + (if q = ''A'' then 10 else if q = ''B'' then 5 else 0), s1, rs)
         else
           let (u, rs1) = Math_random rs;
               predictionFactor = 1 + (u * 0.1 - 0.05)
           in (avgRecentPrice qualityHistory * predictionFactor, s1, rs1))"

section \<open>Values of any type\<close>

text \<open>
  The prediction endpoint reads its arguments from a parsed JSON body, which TypeScript
  types \<^verbatim>\<open>any\<close>: a field may be left out or hold \<^verbatim>\<open>null\<close>, a boolean, a number, a string,
  or an array or object. Arrays and objects are one value here, since the code never
  looks inside them.
\<close>

datatype jsval = JUndefined | JNull | JBool bool | JNumber real | JString string | JObject

text \<open>What \<^verbatim>\<open>!x\<close> negates.\<close>

fun truthy :: "jsval \<Rightarrow> bool" where
  "truthy JUndefined = False"
| "truthy JNull = False"
| "truthy (JBool b) = b"
| "truthy (JNumber x) = (x \<noteq> 0)"
| "truthy (JString str) = (str \<noteq> [])"
| "truthy JObject = True"

text \<open>
  The two methods of the predictor as the endpoint reaches them, with arguments of any
  type. A stored crop type id is a number and a stored location or quality is a string,
  and \<^verbatim>\<open>===\<close> holds between a stored value and an argument when the argument is that
  number or that string.
\<close>

definition getPriceHistoryByCropTypeAndLocation_any ::
  "MemStorage \<Rightarrow> jsval \<Rightarrow> jsval \<Rightarrow> PriceHistory list \<times> MemStorage" where
  "getPriceHistoryByCropTypeAndLocation_any s c l =
     (filter (\<lambda>history. JNumber (of_int (cropTypeId history)) = c
                \<and> JString (location history) = l)
        (Map_values (priceHistory s)), s)"

definition predictPrice_any ::
  "MemStorage \<Rightarrow> rng \<Rightarrow> jsval \<Rightarrow> jsval \<Rightarrow> jsval \<Rightarrow> real \<times> MemStorage \<times> rng" where
  "predictPrice_any s rs c l q =
     (let (history, s1) = getPriceHistoryByCropTypeAndLocation_any s c l;
          qualityHistory = filter (\<lambda>h. JString (quality h) = q) history
      in if length qualityHistory = 0
         then (20 + (if q = JString ''A'' then 10 else if q = JString ''B'' then 5 else 0),
               s1, rs)
         else
           let (u, rs1) = Math_random rs;
               predictionFactor = 1 + (u * 0.1 - 0.05)
           in (avgRecentPrice qualityHistory * predictionFactor, s1, rs1))"

section \<open>Crop types\<close>

definition getCropTypes :: "MemStorage \<Rightarrow> CropType list \<times> MemStorage" where
  "getCropTypes s = (Map_values (cropTypes s), s)"

text \<open>
  \<^verbatim>\<open>getCropTypeByName\<close>. The loop returns the first crop type, in stored order, whose
  lowercased name is the lowercased argument, and \<^verbatim>\<open>undefined\<close> when there is none.
  \<^verbatim>\<open>String.prototype.toLowerCase\<close> is the parameter \<open>lower\<close>: the model fixes no
  lowercasing function. An argument that is not a string has no method
  \<^verbatim>\<open>toLowerCase\<close>, so the first comparison throws a \<^verbatim>\<open>TypeError\<close>; with no crop type
  stored there is no comparison and nothing is thrown.
\<close>

datatype exception = TypeError

fun findByName ::
  "(string \<Rightarrow> string) \<Rightarrow> CropType list \<Rightarrow> jsval \<Rightarrow> exception + CropType option" where
  "findByName lower [] n = Inr None"
| "findByName lower (cropType # rest) n =
     (case n of
        JString str \<Rightarrow>
          if lower (name cropType) = lower str then Inr (Some cropType)
          else findByName lower rest n
      | _ \<Rightarrow> Inl TypeError)"

definition getCropTypeByName ::
  "(string \<Rightarrow> string) \<Rightarrow> MemStorage \<Rightarrow> jsval
     \<Rightarrow> (exception + CropType option) \<times> MemStorage" where
  "getCropTypeByName lower s n = (findByName lower (Map_values (cropTypes s)) n, s)"

section \<open>The forecast generator\<close>

record Dataset =
  cropId :: int
  cropName :: string
  data :: "real list"

record DemandGroups =
  high :: "string list"
  moderate :: "string list"
  low :: "string list"

record ForecastReport =
  labels :: "string list"
  datasets :: "Dataset list"
  demandGroups :: DemandGroups

text \<open>\<^verbatim>\<open>Math.floor(Math.random() * 50) + 20\<close>, once for each month.\<close>

fun randomData :: "string list \<Rightarrow> rng \<Rightarrow> real list \<times> rng" where
  "randomData [] rs = ([], rs)"
| "randomData (m # ms) rs =
     (case Math_random rs of (u, rs1) \<Rightarrow>
        (case randomData ms rs1 of (rest, rs2) \<Rightarrow>
           ((of_int \<lfloor>u * 50\<rfloor> + 20) # rest, rs2)))"

text \<open>\<^verbatim>\<open>topCrops.map(crop => ...)\<close>, the crops visited in order.\<close>

fun forecastDatasets :: "string list \<Rightarrow> CropType list \<Rightarrow> rng \<Rightarrow> Dataset list \<times> rng" where
  "forecastDatasets months [] rs = ([], rs)"
| "forecastDatasets months (crop # crops) rs =
     (case (if name crop = ''Tomato'' then ([30, 45, 60, 70, 65, 55], rs)
            else if name crop = ''Rice'' then ([50, 55, 52, 50, 48, 45], rs)
            else if name crop = ''Onion'' then ([20, 25, 40, 50, 65, 70], rs)
            else randomData months rs) of
        (d, rs1) \<Rightarrow>
          (case forecastDatasets months crops rs1 of (rest, rs2) \<Rightarrow>
             (\<lparr>cropId = id_crop crop, cropName = name crop, data = d\<rparr> # rest, rs2)))"

definition getForecastData :: "MemStorage \<Rightarrow> rng \<Rightarrow> ForecastReport \<times> MemStorage \<times> rng" where
  "getForecastData s rs =
     (let months = [''May'', ''Jun'', ''Jul'', ''Aug'', ''Sep'', ''Oct''];
          (cropTypes, s1) = getCropTypes s;
          topCrops = take 3 cropTypes;
          (datasets, rs1) = forecastDatasets months topCrops rs;
          highDemandCrops = [''Green Chillies'', ''Tomato'', ''Eggplant''];
          moderateDemandCrops = [''Rice'', ''Onion'', ''Cauliflower''];
          lowDemandCrops = [''Potato'', ''Cabbage'', ''Carrots'']
      in (\<lparr>labels = months, datasets = datasets,
           demandGroups =
             \<lparr>high = highDemandCrops, moderate = moderateDemandCrops,
              low = lowDemandCrops\<rparr>\<rparr>, s1, rs1))"

section \<open>Double-precision arithmetic\<close>

text \<open>
  The endpoint rounds prices to cents, and the cents it returns depend on how doubles
  round. A double is the real number it denotes, and \<open>binary64\<close> rounds a real number
  to the nearest double, a tie going to the even significand (IEEE 754, binary64):
  \<open>binade x\<close> is the exponent \<open>e\<close> with \<open>2 powi e \<le> \<bar>x\<bar> < 2 powi (e + 1)\<close>, and \<open>ulp x\<close>
  is the spacing of the doubles there, \<open>2 powi (e - 52)\<close>, or \<open>2 powi (- 1074)\<close> below
  the normal range. The product and the quotient of two doubles are the rounded exact
  product and quotient. Results beyond the largest double (about 1.8e308), which
  JavaScript turns into \<^verbatim>\<open>Infinity\<close>, are not modelled; \<open>binade 0\<close> is not used.
\<close>

definition binade :: "real \<Rightarrow> int" where
  "binade x =
     (if 1 \<le> \<bar>x\<bar> then int (floorlog 2 (nat \<lfloor>\<bar>x\<bar>\<rfloor>)) - 1
      else - int (floorlog 2 (nat (\<lceil>1 / \<bar>x\<bar>\<rceil> - 1))))"

definition ulp :: "real \<Rightarrow> real" where
  "ulp x = (if \<bar>x\<bar> < 2 powi (- 1022) then 2 powi (- 1074) else 2 powi (binade x - 52))"

definition roundTiesToEven :: "real \<Rightarrow> int" where
  "roundTiesToEven t =
     (let n = \<lfloor>t\<rfloor>; r = t - of_int n
      in if r < 1 / 2 then n else if 1 / 2 < r then n + 1
         else if even n then n else n + 1)"

definition binary64 :: "real \<Rightarrow> real" where
  "binary64 x = of_int (roundTiesToEven (x / ulp x)) * ulp x"

text \<open>\<^verbatim>\<open>Math.round\<close>: the nearest integer, a tie going up; exact on doubles.\<close>

definition Math_round :: "real \<Rightarrow> real" where
  "Math_round x = of_int \<lfloor>x + 1 / 2\<rfloor>"

section \<open>The prediction endpoint\<close>

text \<open>
  The four fields the handler of \<^verbatim>\<open>POST /api/predict-price\<close> destructures from
  \<^verbatim>\<open>req.body\<close>, the object that \<^verbatim>\<open>express.json()\<close> left there (the empty object when the
  request has no JSON body); a field that the body does not have is \<^const>\<open>JUndefined\<close>.
\<close>

record PredictBody =
  body_cropTypeId :: jsval
  body_cropTypeName :: jsval
  body_location :: jsval
  body_quality :: jsval

record PricePrediction =
  minPrice :: real
  maxPrice :: real
  priceRange :: string
  averagePrice :: real
  marketComparison :: string

datatype response = Status400 string | Status500 string | Status200 PricePrediction

text \<open>The rupee sign U+20B9, as the three bytes of its UTF-8 encoding.\<close>

definition rupee :: string where
  "rupee = [CHR 0xE2, CHR 0x82, CHR 0xB9]"

text \<open>
  The response built from the predicted price (the handler after \<^verbatim>\<open>predictPrice\<close>
  returns). The literals \<^verbatim>\<open>0.9\<close> and \<^verbatim>\<open>1.1\<close> are the doubles nearest to 9/10 and 11/10, and
  every product and quotient is rounded to a double. The conversion of a number to a
  string in the template literal is the parameter \<open>toStr\<close>: the model fixes no number
  format. \<open>u\<close> is the draw behind \<^verbatim>\<open>marketComparison\<close>.
\<close>

definition rangeResponse :: "(real \<Rightarrow> string) \<Rightarrow> real \<Rightarrow> real \<Rightarrow> PricePrediction" where
  "rangeResponse toStr p u =
     (let roundedPrice = binary64 (Math_round (binary64 (p * 100)) / 100);
          minP = binary64 (Math_round
                   (binary64 (binary64 (roundedPrice * binary64 (9 / 10)) * 100)) / 100);
          maxP = binary64 (Math_round
                   (binary64 (binary64 (roundedPrice * binary64 (11 / 10)) * 100)) / 100)
      in \<lparr>minPrice = minP, maxPrice = maxP,
          priceRange = rupee @ toStr minP @ ''-'' @ toStr maxP,
          averagePrice = roundedPrice,
          marketComparison = (if u > 0.5 then ''above'' else ''below'')\<rparr>)"

text \<open>
  The handler. The lookup of the name is the only operation in its \<^verbatim>\<open>try\<close> block that can
  throw; the \<^verbatim>\<open>catch\<close> block answers with status 500.
\<close>

definition post_predict_price ::
  "(string \<Rightarrow> string) \<Rightarrow> (real \<Rightarrow> string) \<Rightarrow> MemStorage \<Rightarrow> rng \<Rightarrow> PredictBody
     \<Rightarrow> response \<times> MemStorage \<times> rng" where
  "post_predict_price lower toStr s rs body =
     (case (if \<not> truthy (body_cropTypeId body) \<and> truthy (body_cropTypeName body)
            then (case getCropTypeByName lower s (body_cropTypeName body) of
                    (Inl e, s1) \<Rightarrow> Inl (Status500 ''Internal server error'', s1)
                  | (Inr None, s1) \<Rightarrow> Inl (Status400 ''Invalid crop type name'', s1)
                  | (Inr (Some cropType), s1) \<Rightarrow>
                      Inr (JNumber (of_int (id_crop cropType)), s1))
            else Inr (body_cropTypeId body, s)) of
        Inl (r, s1) \<Rightarrow> (r, s1, rs)
      | Inr (resolvedCropTypeId, s1) \<Rightarrow>
          if \<not> truthy resolvedCropTypeId \<or> \<not> truthy (body_location body)
               \<or> \<not> truthy (body_quality body)
          then (Status400 ''Missing required fields'', s1, rs)
          else
            (case predictPrice_any s1 rs resolvedCropTypeId (body_location body)
                    (body_quality body) of
               (p, s2, rs1) \<Rightarrow>
                 (case Math_random rs1 of (u, rs2) \<Rightarrow>
                    (Status200 (rangeResponse toStr p u), s2, rs2))))"

section \<open>Creating records\<close>

text \<open>The state the constructor builds before it seeds the sample data.\<close>

definition emptyStorage :: MemStorage where
  "emptyStorage =
     \<lparr>users = [], cropTypes = [], listings = [], bids = [], barterOffers = [],
      priceHistory = [], userId = 1, cropTypeId_next = 1, listingId = 1, bidId = 1,
      barterOfferId = 1, priceHistoryId = 1\<rparr>"

text \<open>\<^verbatim>\<open>createCropType\<close>; an \<^verbatim>\<open>InsertCropType\<close> carries the name only.\<close>

definition createCropType :: "MemStorage \<Rightarrow> string \<Rightarrow> CropType \<times> MemStorage" where
  "createCropType s cropType =
     (let id = cropTypeId_next s;
          newCropType = \<lparr>id_crop = id, name = cropType\<rparr>
      in (newCropType,
          s\<lparr>cropTypes := AList.update id newCropType (cropTypes s),
            cropTypeId_next := id + 1\<rparr>))"

text \<open>The crop types of \<^verbatim>\<open>initSampleData\<close>, created in this order by \<^verbatim>\<open>forEach\<close>.\<close>

definition sampleCropTypes :: "string list" where
  "sampleCropTypes =
     [''Rice'', ''Wheat'', ''Tomato'', ''Potato'', ''Onion'', ''Green Chillies'',
      ''Eggplant'', ''Cauliflower'', ''Cabbage'', ''Carrots'']"

definition initCropTypes :: "MemStorage \<Rightarrow> MemStorage" where
  "initCropTypes s = foldl (\<lambda>s' cropType. snd (createCropType s' cropType)) s sampleCropTypes"

text \<open>
  \<^verbatim>\<open>createPriceHistory\<close>. The data to insert may leave \<^verbatim>\<open>recordedDate\<close> out, in which case
  the entry is dated \<^verbatim>\<open>new Date()\<close>, the argument \<open>now\<close>.
\<close>

record InsertPriceHistory =
  ins_cropTypeId :: int
  ins_location :: string
  ins_price :: real
  ins_quality :: string
  ins_recordedDate :: "int option"

definition createPriceHistory ::
  "MemStorage \<Rightarrow> int \<Rightarrow> InsertPriceHistory \<Rightarrow> PriceHistory \<times> MemStorage" where
  "createPriceHistory s now priceHistoryData =
     (let id = priceHistoryId s;
          newPriceHistory =
            \<lparr>id_history = id,
             cropTypeId = ins_cropTypeId priceHistoryData,
             location = ins_location priceHistoryData,
             price = ins_price priceHistoryData,
             quality = ins_quality priceHistoryData,
             recordedDate =
               (case ins_recordedDate priceHistoryData of Some d \<Rightarrow> d | None \<Rightarrow> now)\<rparr>
      in (newPriceHistory,
          s\<lparr>priceHistory := AList.update id newPriceHistory (priceHistory s),
            priceHistoryId := id + 1\<rparr>))"

section \<open>A store to evaluate on\<close>

text \<open>
  The crop types of the sample data and six price observations: four for crop type 1 in
  Pune at grade A, one at grade B, one in Nashik.
\<close>

definition observation :: "int \<Rightarrow> string \<Rightarrow> real \<Rightarrow> string \<Rightarrow> int \<Rightarrow> InsertPriceHistory" where
  "observation c l p q d =
     \<lparr>ins_cropTypeId = c, ins_location = l, ins_price = p, ins_quality = q,
      ins_recordedDate = Some d\<rparr>"

definition sampleObservations :: "InsertPriceHistory list" where
  "sampleObservations =
     [observation 1 ''Pune'' 30 ''A'' 200,
      observation 1 ''Pune'' 34 ''A'' 400,
      observation 1 ''Pune'' 25 ''B'' 500,
      observation 1 ''Pune'' 28 ''A'' 100,
      observation 1 ''Nashik'' 40 ''A'' 600,
      observation 1 ''Pune'' 32 ''A'' 300]"

definition sampleStore :: MemStorage where
  "sampleStore =
     foldl (\<lambda>s' d. snd (createPriceHistory s' 0 d)) (initCropTypes emptyStorage)
       sampleObservations"

text \<open>
  The same store with one more observation, for a crop type 99 that is not stored.
\<close>

definition danglingStore :: MemStorage where
  "danglingStore = snd (createPriceHistory sampleStore 0 (observation 99 ''Pune'' 50 ''A'' 700))"

text \<open>
  Request bodies: an empty location, a crop type id of 0, the id of no crop type, a name
  that is a number, a name that matches no crop type, and a name that matches one up to
  letter case.
\<close>

definition emptyLocationBody :: PredictBody where
  "emptyLocationBody = \<lparr>body_cropTypeId = JNumber 1, body_cropTypeName = JUndefined,
      body_location = JString [], body_quality = JString ''A''\<rparr>"

definition zeroIdBody :: PredictBody where
  "zeroIdBody = \<lparr>body_cropTypeId = JNumber 0, body_cropTypeName = JUndefined,
      body_location = JString ''Pune'', body_quality = JString ''A''\<rparr>"

definition strayIdBody :: PredictBody where
  "strayIdBody = \<lparr>body_cropTypeId = JNumber 99, body_cropTypeName = JUndefined,
      body_location = JString ''Pune'', body_quality = JString ''A''\<rparr>"

definition numericNameBody :: PredictBody where
  "numericNameBody = \<lparr>body_cropTypeId = JUndefined, body_cropTypeName = JNumber 123,
      body_location = JString ''Pune'', body_quality = JString ''A''\<rparr>"

definition maizeBody :: PredictBody where
  "maizeBody = \<lparr>body_cropTypeId = JUndefined, body_cropTypeName = JString ''maize'',
      body_location = JString ''Pune'', body_quality = JString ''B''\<rparr>"

definition wheatBody :: PredictBody where
  "wheatBody = \<lparr>body_cropTypeId = JUndefined, body_cropTypeName = JString ''wheat'',
      body_location = JString ''Pune'', body_quality = JString ''B''\<rparr>"

text \<open>
  A sequence of draws in the range of \<^verbatim>\<open>Math.random\<close>: 1/2, 1/3, 1/4, ...
\<close>

definition harmonicDraws :: rng where
  "harmonicDraws = (\<lambda>k. 1 / (real k + 2))"

text \<open>
  Arguments for the two parameters when a request is evaluated. They stand for no
  JavaScript function and no theorem below is about them: \<open>asciiLower\<close> maps the
  letters A to Z to a to z, and \<open>centString\<close> writes the number of cents nearest to its
  argument as a decimal numeral without trailing zeros.
\<close>

definition asciiLower_char :: "char \<Rightarrow> char" where
  "asciiLower_char ch =
     (case map_of (zip ''ABCDEFGHIJKLMNOPQRSTUVWXYZ'' ''abcdefghijklmnopqrstuvwxyz'') ch of
        Some lower \<Rightarrow> lower
      | None \<Rightarrow> ch)"

definition asciiLower :: "string \<Rightarrow> string" where
  "asciiLower str = map asciiLower_char str"

definition digit :: "nat \<Rightarrow> char" where
  "digit n = ''0123456789'' ! n"

text \<open>\<^const>\<open>digit\<close> is applied to numbers below 10 only.\<close>

fun digits :: "nat \<Rightarrow> string" where
  "digits n = (if n < 10 then [digit n] else digits (n div 10) @ [digit (n mod 10)])"

declare digits.simps [simp del]

definition centString :: "real \<Rightarrow> string" where
  "centString x =
     (let k = \<lfloor>x * 100 + 1 / 2\<rfloor>;
          a = nat \<bar>k\<bar>;
          f = a mod 100
      in (if k < 0 then ''-'' else []) @ digits (a div 100) @
         (if f = 0 then []
          else if f mod 10 = 0 then ''.'' @ [digit (f div 10)]
          else ''.'' @ [digit (f div 10), digit (f mod 10)]))"

section \<open>The claims' vocabulary\<close>

text \<open>
  The entries that match a crop type, a location and a quality grade, all three by
  equality: what the claims call the matching entries.
\<close>

definition matchingHistory ::
  "MemStorage \<Rightarrow> int \<Rightarrow> string \<Rightarrow> string \<Rightarrow> PriceHistory list" where
  "matchingHistory s c l q =
     filter (\<lambda>h. cropTypeId h = c \<and> location h = l \<and> quality h = q)
       (Map_values (priceHistory s))"

text \<open>
  The draws that \<^verbatim>\<open>Math.random\<close> can return lie in the interval from 0 (included) to 1
  (excluded).
\<close>

definition unitDraws :: "rng \<Rightarrow> bool" where
  "unitDraws rs = (\<forall>k. 0 \<le> rs k \<and> rs k < 1)"

text \<open>
  A series of six integers between 20 and 69, and the series a dataset must carry
  according to its crop name.
\<close>

definition randomSeries :: "real list \<Rightarrow> bool" where
  "randomSeries d = (length d = 6 \<and> (\<forall>v \<in> set d. v \<in> \<int> \<and> 20 \<le> v \<and> v \<le> 69))"

definition seriesOf :: "Dataset \<Rightarrow> bool" where
  "seriesOf d =
     (if cropName d = ''Tomato'' then data d = [30, 45, 60, 70, 65, 55]
      else if cropName d = ''Rice'' then data d = [50, 55, 52, 50, 48, 45]
      else if cropName d = ''Onion'' then data d = [20, 25, 40, 50, 65, 70]
      else randomSeries (data d))"

text \<open>
  The failure conditions of the prediction request as literally stated, on absent
  fields: (a) a name is given, no id is, and the lookup of the name yields no stored crop
  type; (b) the id after name resolution, the location or the quality is absent.
\<close>

definition claimed_unknownCropType ::
  "(string \<Rightarrow> string) \<Rightarrow> MemStorage \<Rightarrow> PredictBody \<Rightarrow> bool" where
  "claimed_unknownCropType lower s body =
     (body_cropTypeId body = JUndefined \<and> body_cropTypeName body \<noteq> JUndefined \<and>
      (case fst (getCropTypeByName lower s (body_cropTypeName body)) of
         Inr (Some cropType) \<Rightarrow> False
       | _ \<Rightarrow> True))"

definition resolvedCropTypeId ::
  "(string \<Rightarrow> string) \<Rightarrow> MemStorage \<Rightarrow> PredictBody \<Rightarrow> jsval" where
  "resolvedCropTypeId lower s body =
     (if body_cropTypeId body \<noteq> JUndefined then body_cropTypeId body
      else if body_cropTypeName body = JUndefined then JUndefined
      else (case fst (getCropTypeByName lower s (body_cropTypeName body)) of
              Inr (Some cropType) \<Rightarrow> JNumber (of_int (id_crop cropType))
            | _ \<Rightarrow> JUndefined))"

definition claimed_missingField ::
  "(string \<Rightarrow> string) \<Rightarrow> MemStorage \<Rightarrow> PredictBody \<Rightarrow> bool" where
  "claimed_missingField lower s body =
     (resolvedCropTypeId lower s body = JUndefined \<or> body_location body = JUndefined
      \<or> body_quality body = JUndefined)"

text \<open>
  The conditions on falsy fields, as the handler tests them with \<^verbatim>\<open>!x\<close>. The name is
  looked up when the id is falsy and the name is truthy; the lookup returns no crop type
  (\<open>unknownCropType\<close>), or throws (\<open>lookupThrows\<close>), or returns a crop type, whose id is
  then the id in force (\<open>effectiveCropTypeId\<close>); the id in force, the location and the
  quality must each be truthy.
\<close>

definition lookupMade :: "PredictBody \<Rightarrow> bool" where
  "lookupMade body = (\<not> truthy (body_cropTypeId body) \<and> truthy (body_cropTypeName body))"

definition unknownCropType ::
  "(string \<Rightarrow> string) \<Rightarrow> MemStorage \<Rightarrow> PredictBody \<Rightarrow> bool" where
  "unknownCropType lower s body =
     (lookupMade body
      \<and> fst (getCropTypeByName lower s (body_cropTypeName body)) = Inr None)"

definition lookupThrows ::
  "(string \<Rightarrow> string) \<Rightarrow> MemStorage \<Rightarrow> PredictBody \<Rightarrow> bool" where
  "lookupThrows lower s body =
     (lookupMade body
      \<and> fst (getCropTypeByName lower s (body_cropTypeName body)) = Inl TypeError)"

definition effectiveCropTypeId ::
  "(string \<Rightarrow> string) \<Rightarrow> MemStorage \<Rightarrow> PredictBody \<Rightarrow> jsval" where
  "effectiveCropTypeId lower s body =
     (if lookupMade body
      then (case fst (getCropTypeByName lower s (body_cropTypeName body)) of
              Inr (Some cropType) \<Rightarrow> JNumber (of_int (id_crop cropType))
            | _ \<Rightarrow> body_cropTypeId body)
      else body_cropTypeId body)"

definition missingField ::
  "(string \<Rightarrow> string) \<Rightarrow> MemStorage \<Rightarrow> PredictBody \<Rightarrow> bool" where
  "missingField lower s body =
     (\<not> truthy (effectiveCropTypeId lower s body) \<or> \<not> truthy (body_location body)
      \<or> \<not> truthy (body_quality body))"

section \<open>Auxiliary facts\<close>

subsection \<open>The price predictor\<close>

lemma qualityHistory_matching:
  "filter (\<lambda>h. quality h = q) (fst (getPriceHistoryByCropTypeAndLocation s c l))
     = matchingHistory s c l q"
  by (simp add: getPriceHistoryByCropTypeAndLocation_def matchingHistory_def conj_ac)

lemma getPriceHistory_store:
  "snd (getPriceHistoryByCropTypeAndLocation s c l) = s"
  by (simp add: getPriceHistoryByCropTypeAndLocation_def)

lemma predictPrice_unfold:
  "predictPrice s rs c l q =
     (if matchingHistory s c l q = []
      then (20 + (if q = ''A'' then 10 else if q = ''B'' then 5 else 0), s, rs)
      else (avgRecentPrice (matchingHistory s c l q) * (1 + (rs 0 * 0.1 - 0.05)), s,
            \<lambda>k. rs (Suc k)))"
  by (simp add: predictPrice_def split_beta Let_def Math_random_def
      qualityHistory_matching getPriceHistory_store)

lemma foldl_price_sum:
  "foldl (\<lambda>sum h. sum + price h) a xs = a + sum_list (map price xs)"
  by (induction xs arbitrary: a) simp_all

lemma recentPrices_take3: "recentPrices qh = take 3 (sortedHistory qh)"
proof (cases "3 \<le> length (sortedHistory qh)")
  case True
  then show ?thesis by (simp add: recentPrices_def min_def)
next
  case False
  then show ?thesis by (simp add: recentPrices_def min_def)
qed

lemma length_recentPrices: "length (recentPrices qh) = min (length qh) 3"
  by (simp add: recentPrices_def sortedHistory_def min.commute)

lemma avgRecentPrice_mean:
  "avgRecentPrice qh = sum_list (map price (recentPrices qh)) / real (min (length qh) 3)"
  by (simp add: avgRecentPrice_def foldl_price_sum length_recentPrices)

lemma mset_recent_older:
  "mset (recentPrices qh) + mset (drop 3 (sortedHistory qh)) = mset qh"
proof -
  have "mset (take 3 (sortedHistory qh)) + mset (drop 3 (sortedHistory qh))
          = mset (sortedHistory qh)"
    by (metis append_take_drop_id mset_append)
  then show ?thesis by (simp add: sortedHistory_def recentPrices_take3)
qed

lemma sorted_sortedHistory: "sorted (map (\<lambda>h. - recordedDate h) (sortedHistory qh))"
  by (simp add: sortedHistory_def)

lemma take_drop_sorted:
  assumes "sorted (map f xs)" "x \<in> set (take n xs)" "y \<in> set (drop n xs)"
  shows "f x \<le> f y"
proof -
  have "sorted (map f (take n xs) @ map f (drop n xs))"
    using assms(1) by (metis append_take_drop_id map_append)
  then show ?thesis using assms(2,3) by (auto simp: sorted_append)
qed

lemma recent_latest:
  assumes "x \<in> set (recentPrices qh)" "y \<in> set (drop 3 (sortedHistory qh))"
  shows "recordedDate y \<le> recordedDate x"
proof -
  have "x \<in> set (take 3 (sortedHistory qh))"
    using assms(1) by (simp add: recentPrices_take3)
  from take_drop_sorted[OF sorted_sortedHistory this assms(2)] show ?thesis by simp
qed

lemma sum_prices_pos:
  "xs \<noteq> [] \<Longrightarrow> (\<forall>h \<in> set xs. 0 < price h) \<Longrightarrow> 0 < sum_list (map price xs)"
proof (induction xs)
  case Nil
  then show ?case by simp
next
  case (Cons a xs)
  have "0 \<le> sum_list (map price xs)"
    using Cons.prems(2) by (intro sum_list_nonneg) (auto simp: less_imp_le)
  moreover have "0 < price a" using Cons.prems(2) by simp
  ultimately show ?case by simp
qed

subsection \<open>The stores to evaluate on\<close>

lemmas store_defs =
  sampleStore_def sampleObservations_def observation_def createPriceHistory_def
  initCropTypes_def sampleCropTypes_def createCropType_def emptyStorage_def Let_def

lemma sampleStore_history:
  "Map_values (priceHistory sampleStore) =
     [\<lparr>id_history = 1, cropTypeId = 1, location = ''Pune'', price = 30, quality = ''A'',
        recordedDate = 200\<rparr>,
      \<lparr>id_history = 2, cropTypeId = 1, location = ''Pune'', price = 34, quality = ''A'',
        recordedDate = 400\<rparr>,
      \<lparr>id_history = 3, cropTypeId = 1, location = ''Pune'', price = 25, quality = ''B'',
        recordedDate = 500\<rparr>,
      \<lparr>id_history = 4, cropTypeId = 1, location = ''Pune'', price = 28, quality = ''A'',
        recordedDate = 100\<rparr>,
      \<lparr>id_history = 5, cropTypeId = 1, location = ''Nashik'', price = 40, quality = ''A'',
        recordedDate = 600\<rparr>,
      \<lparr>id_history = 6, cropTypeId = 1, location = ''Pune'', price = 32, quality = ''A'',
        recordedDate = 300\<rparr>]"
  by (simp add: store_defs Map_values_def)

lemma sampleStore_crops:
  "Map_values (cropTypes sampleStore) =
     [\<lparr>id_crop = 1, name = ''Rice''\<rparr>, \<lparr>id_crop = 2, name = ''Wheat''\<rparr>,
      \<lparr>id_crop = 3, name = ''Tomato''\<rparr>, \<lparr>id_crop = 4, name = ''Potato''\<rparr>,
      \<lparr>id_crop = 5, name = ''Onion''\<rparr>, \<lparr>id_crop = 6, name = ''Green Chillies''\<rparr>,
      \<lparr>id_crop = 7, name = ''Eggplant''\<rparr>, \<lparr>id_crop = 8, name = ''Cauliflower''\<rparr>,
      \<lparr>id_crop = 9, name = ''Cabbage''\<rparr>, \<lparr>id_crop = 10, name = ''Carrots''\<rparr>]"
  by (simp add: store_defs Map_values_def)

lemma danglingStore_history:
  "Map_values (priceHistory danglingStore) =
     Map_values (priceHistory sampleStore) @
     [\<lparr>id_history = 7, cropTypeId = 99, location = ''Pune'', price = 50, quality = ''A'',
        recordedDate = 700\<rparr>]"
  by (simp add: danglingStore_def store_defs Map_values_def)

lemma danglingStore_crops: "cropTypes danglingStore = cropTypes sampleStore"
  by (simp add: danglingStore_def createPriceHistory_def Let_def)

text \<open>Creating a record does change the store: the id counter moves.\<close>

lemma createPriceHistory_changes: "snd (createPriceHistory s now d) \<noteq> s"
proof
  assume "snd (createPriceHistory s now d) = s"
  then have "priceHistoryId (snd (createPriceHistory s now d)) = priceHistoryId s"
    by simp
  then show False by (simp add: createPriceHistory_def Let_def)
qed

lemma lookup_maize: "fst (getCropTypeByName asciiLower sampleStore (JString ''maize'')) = Inr None"
  by (simp add: getCropTypeByName_def sampleStore_crops asciiLower_def asciiLower_char_def)

lemma lookup_wheat:
  "fst (getCropTypeByName asciiLower sampleStore (JString ''wheat''))
     = Inr (Some \<lparr>id_crop = 2, name = ''Wheat''\<rparr>)"
  by (simp add: getCropTypeByName_def sampleStore_crops asciiLower_def asciiLower_char_def)

lemma lookup_rICE:
  "fst (getCropTypeByName asciiLower sampleStore (JString ''rICE''))
     = Inr (Some \<lparr>id_crop = 1, name = ''Rice''\<rparr>)"
  by (simp add: getCropTypeByName_def sampleStore_crops asciiLower_def asciiLower_char_def)

lemma lookup_123:
  "fst (getCropTypeByName asciiLower sampleStore (JNumber 123)) = Inl TypeError"
  by (simp add: getCropTypeByName_def sampleStore_crops)

subsection \<open>The predictor on arguments of any type\<close>

lemma predictPrice_any_typed:
  "predictPrice_any s rs (JNumber (of_int c)) (JString l) (JString q) = predictPrice s rs c l q"
  by (simp add: predictPrice_any_def predictPrice_def
      getPriceHistoryByCropTypeAndLocation_any_def getPriceHistoryByCropTypeAndLocation_def)

lemma predictPrice_any_store: "fst (snd (predictPrice_any s rs c l q)) = s"
  by (simp add: predictPrice_any_def getPriceHistoryByCropTypeAndLocation_any_def
      split_beta Let_def)

lemma predictPrice_any_fallback:
  assumes "\<forall>h \<in> set (Map_values (priceHistory s)). JNumber (of_int (cropTypeId h)) \<noteq> c"
  shows "predictPrice_any s rs c l q
           = (20 + (if q = JString ''A'' then 10 else if q = JString ''B'' then 5 else 0), s, rs)"
proof -
  have "filter (\<lambda>history. JNumber (of_int (cropTypeId history)) = c
                  \<and> JString (location history) = l) (Map_values (priceHistory s)) = []"
    using assms by (simp add: filter_empty_conv)
  then show ?thesis
    by (simp add: predictPrice_any_def getPriceHistoryByCropTypeAndLocation_any_def)
qed

subsection \<open>The handler, by cases\<close>

lemma findByName_string:
  "findByName lower xs (JString str)
     = Inr (find (\<lambda>cropType. lower (name cropType) = lower str) xs)"
  by (induction xs) simp_all

lemma getCropTypeByName_store: "snd (getCropTypeByName lower s n) = s"
  by (simp add: getCropTypeByName_def)

lemma getCropTypeByName_pair:
  "getCropTypeByName lower s n = (fst (getCropTypeByName lower s n), s)"
  by (simp add: getCropTypeByName_def)

lemma post_unknown:
  assumes "unknownCropType lower s body"
  shows "post_predict_price lower toStr s rs body
           = (Status400 ''Invalid crop type name'', s, rs)"
proof -
  from assms have m: "\<not> truthy (body_cropTypeId body) \<and> truthy (body_cropTypeName body)"
    and g: "getCropTypeByName lower s (body_cropTypeName body) = (Inr None, s)"
    using getCropTypeByName_pair [of lower s "body_cropTypeName body"]
    by (simp_all add: unknownCropType_def lookupMade_def)
  show ?thesis
    unfolding post_predict_price_def if_P [OF m] g by simp
qed

lemma post_throws:
  assumes "lookupThrows lower s body"
  shows "post_predict_price lower toStr s rs body
           = (Status500 ''Internal server error'', s, rs)"
proof -
  from assms have m: "\<not> truthy (body_cropTypeId body) \<and> truthy (body_cropTypeName body)"
    and g: "getCropTypeByName lower s (body_cropTypeName body) = (Inl TypeError, s)"
    using getCropTypeByName_pair [of lower s "body_cropTypeName body"]
    by (simp_all add: lookupThrows_def lookupMade_def)
  show ?thesis
    unfolding post_predict_price_def if_P [OF m] g by simp
qed

lemma post_resolved:
  assumes "\<not> unknownCropType lower s body" and "\<not> lookupThrows lower s body"
  shows "post_predict_price lower toStr s rs body =
     (if \<not> truthy (effectiveCropTypeId lower s body) \<or> \<not> truthy (body_location body)
           \<or> \<not> truthy (body_quality body)
      then (Status400 ''Missing required fields'', s, rs)
      else
        (case predictPrice_any s rs (effectiveCropTypeId lower s body) (body_location body)
                (body_quality body) of
           (p, s2, rs1) \<Rightarrow>
             (case Math_random rs1 of (u, rs2) \<Rightarrow>
                (Status200 (rangeResponse toStr p u), s2, rs2))))"
proof (cases "\<not> truthy (body_cropTypeId body) \<and> truthy (body_cropTypeName body)")
  case True
  then have m: "lookupMade body" by (simp add: lookupMade_def)
  with assms obtain ct
    where ct: "fst (getCropTypeByName lower s (body_cropTypeName body)) = Inr (Some ct)"
    by (cases "fst (getCropTypeByName lower s (body_cropTypeName body))")
       (auto simp: unknownCropType_def lookupThrows_def intro: exception.exhaust)
  have g: "getCropTypeByName lower s (body_cropTypeName body) = (Inr (Some ct), s)"
    using ct getCropTypeByName_pair [of lower s "body_cropTypeName body"] by simp
  have e: "effectiveCropTypeId lower s body = JNumber (of_int (id_crop ct))"
    using m ct by (simp add: effectiveCropTypeId_def)
  show ?thesis
    unfolding post_predict_price_def if_P [OF True] g by (simp add: e)
next
  case False
  then have e: "effectiveCropTypeId lower s body = body_cropTypeId body"
    by (auto simp: effectiveCropTypeId_def lookupMade_def)
  show ?thesis
    unfolding post_predict_price_def if_not_P [OF False] by (simp add: e)
qed

lemma invalid_name_only_from_name:
  assumes "fst (post_predict_price lower toStr s rs body) = Status400 ''Invalid crop type name''"
  shows "unknownCropType lower s body"
proof (rule ccontr)
  assume u: "\<not> unknownCropType lower s body"
  show False
  proof (cases "lookupThrows lower s body")
    case True
    from post_throws [OF this, of toStr rs] assms show False by simp
  next
    case False
    from post_resolved [OF u False, of toStr rs] assms show False
      by (simp add: split_beta split: if_splits)
  qed
qed

lemma post_accepted:
  assumes "\<not> unknownCropType lower s body" and "\<not> lookupThrows lower s body"
    and "\<not> missingField lower s body"
  shows "\<exists>p. fst (post_predict_price lower toStr s rs body) = Status200 p"
  using assms(3) by (simp add: post_resolved [OF assms(1,2)] missingField_def split_beta)

lemma find_lower:
  assumes "c \<in> set xs" "lower str = lower (name c)"
  shows "\<exists>c'. find (\<lambda>cropType. lower (name cropType) = lower str) xs = Some c'
           \<and> c' \<in> set xs \<and> lower (name c') = lower str"
proof (cases "find (\<lambda>cropType. lower (name cropType) = lower str) xs")
  case None
  then show ?thesis using assms by (auto simp: find_None_iff)
next
  case (Some c')
  then show ?thesis by (auto simp: find_Some_iff)
qed

lemma rice_request:
  "fst (post_predict_price asciiLower centString sampleStore (\<lambda>k. 1 / 2)
            \<lparr>body_cropTypeId = JUndefined, body_cropTypeName = JString ''rICE'',
             body_location = JString ''Pune'', body_quality = JString ''A''\<rparr>)
     = Status200 (rangeResponse centString 32 (1 / 2))"
proof -
  have m: "matchingHistory sampleStore 1 ''Pune'' ''A'' \<noteq> []"
    by (simp add: matchingHistory_def sampleStore_history)
  have v: "avgRecentPrice (matchingHistory sampleStore 1 ''Pune'' ''A'') = 32"
    by (simp add: matchingHistory_def sampleStore_history avgRecentPrice_def
        recentPrices_def sortedHistory_def)
  have g: "getCropTypeByName asciiLower sampleStore (JString ''rICE'')
       = (Inr (Some \<lparr>id_crop = 1, name = ''Rice''\<rparr>), sampleStore)"
    using lookup_rICE getCropTypeByName_pair [of asciiLower sampleStore "JString ''rICE''"]
    by simp
  have p: "predictPrice_any sampleStore (\<lambda>k. 1 / 2) (JNumber 1) (JString ''Pune'')
             (JString ''A'') = (32, sampleStore, \<lambda>k. 1 / 2)"
    using predictPrice_any_typed [of sampleStore "\<lambda>k. 1 / 2" 1 "''Pune''" "''A''"] m v
    by (simp add: predictPrice_unfold)
  show ?thesis
    by (simp add: post_predict_price_def g p Math_random_def)
qed

subsection \<open>Rounding to doubles\<close>

lemma binade_bounds:
  assumes "x \<noteq> 0"
  shows "2 powi binade x \<le> \<bar>x\<bar>" and "\<bar>x\<bar> < 2 powi (binade x + 1)"
proof -
  have "2 powi binade x \<le> \<bar>x\<bar> \<and> \<bar>x\<bar> < 2 powi (binade x + 1)"
  proof (cases "1 \<le> \<bar>x\<bar>")
    case True
    define n where "n = nat \<lfloor>\<bar>x\<bar>\<rfloor>"
    have n: "0 < n" using True by (simp add: n_def)
    have b: "binade x = int (floorlog 2 n) - 1" using True by (simp add: binade_def n_def)
    have fl: "0 < floorlog 2 n" using n by (simp add: floorlog_def)
    from floorlog_bounds [of n 2] n
    have lo: "2 ^ (floorlog 2 n - 1) \<le> n" and hi: "n < 2 ^ floorlog 2 n" by simp_all
    have "real n \<le> \<bar>x\<bar>" using True by (simp add: n_def)
    moreover have "\<bar>x\<bar> < real n + 1" using True by (simp add: n_def)
    moreover have "(2::real) ^ (floorlog 2 n - 1) \<le> real n"
      using lo by (metis of_nat_le_iff of_nat_numeral of_nat_power)
    moreover have "real n + 1 \<le> 2 ^ floorlog 2 n"
    proof -
      have "Suc n \<le> 2 ^ floorlog 2 n" using hi by simp
      then have "real (Suc n) \<le> real (2 ^ floorlog 2 n)" by (simp only: of_nat_le_iff)
      then show ?thesis by simp
    qed
    moreover have "2 powi binade x = (2::real) ^ (floorlog 2 n - 1)"
    proof -
      have "binade x = int (floorlog 2 n - 1)" using b fl by simp
      then show ?thesis by (simp only: power_int_of_nat)
    qed
    moreover have "2 powi (binade x + 1) = (2::real) ^ floorlog 2 n"
    proof -
      have "binade x + 1 = int (floorlog 2 n)" using b by simp
      then show ?thesis by (simp only: power_int_of_nat)
    qed
    ultimately show ?thesis by linarith
  next
    case False
    define m where "m = nat (\<lceil>1 / \<bar>x\<bar>\<rceil> - 1)"
    have x: "0 < \<bar>x\<bar>" "\<bar>x\<bar> < 1" using assms False by simp_all
    then have y: "1 < 1 / \<bar>x\<bar>" by simp
    then have c: "2 \<le> \<lceil>1 / \<bar>x\<bar>\<rceil>" by linarith
    then have m: "0 < m" "int m = \<lceil>1 / \<bar>x\<bar>\<rceil> - 1" unfolding m_def by linarith+
    have b: "binade x = - int (floorlog 2 m)" using False by (simp add: binade_def m_def)
    have fl: "0 < floorlog 2 m" using m by (simp add: floorlog_def)
    from floorlog_bounds [of m 2] m
    have lo: "2 ^ (floorlog 2 m - 1) \<le> m" and hi: "m < 2 ^ floorlog 2 m" by simp_all
    have "(2::real) ^ (floorlog 2 m - 1) \<le> real m"
      using lo by (metis of_nat_le_iff of_nat_numeral of_nat_power)
    moreover have "real m < 1 / \<bar>x\<bar>"
    proof -
      have "real_of_int (\<lceil>1 / \<bar>x\<bar>\<rceil> - 1) < 1 / \<bar>x\<bar>" by linarith
      then show ?thesis using m(2) by (metis of_int_of_nat_eq)
    qed
    ultimately have A: "(2::real) ^ (floorlog 2 m - 1) < 1 / \<bar>x\<bar>" by linarith
    have "real m + 1 \<le> 2 ^ floorlog 2 m"
    proof -
      have "Suc m \<le> 2 ^ floorlog 2 m" using hi by simp
      then have "real (Suc m) \<le> real (2 ^ floorlog 2 m)" by (simp only: of_nat_le_iff)
      then show ?thesis by simp
    qed
    moreover have "1 / \<bar>x\<bar> \<le> real m + 1"
    proof -
      have "1 / \<bar>x\<bar> \<le> real_of_int \<lceil>1 / \<bar>x\<bar>\<rceil>" by linarith
      also have "\<dots> = real_of_int (int m) + 1" using m(2) by simp
      finally show ?thesis by simp
    qed
    ultimately have B: "1 / \<bar>x\<bar> \<le> (2::real) ^ floorlog 2 m" by linarith
    have p1: "2 powi binade x = 1 / (2::real) ^ floorlog 2 m"
      by (simp add: b power_int_minus field_simps)
    have p2: "2 powi (binade x + 1) = 1 / (2::real) ^ (floorlog 2 m - 1)"
    proof -
      have "binade x + 1 = - int (floorlog 2 m - 1)" using b fl by simp
      then show ?thesis by (simp only: power_int_minus power_int_of_nat) (simp add: field_simps)
    qed
    have "1 / (2::real) ^ floorlog 2 m \<le> \<bar>x\<bar>"
      using B x(1) by (simp add: field_simps)
    moreover have "\<bar>x\<bar> < 1 / (2::real) ^ (floorlog 2 m - 1)"
      using A x(1) by (simp add: field_simps)
    ultimately show ?thesis by (simp only: p1 p2)
  qed
  then show "2 powi binade x \<le> \<bar>x\<bar>" and "\<bar>x\<bar> < 2 powi (binade x + 1)" by simp_all
qed

lemma binade_unique:
  assumes "2 powi e \<le> \<bar>x\<bar>" and "\<bar>x\<bar> < 2 powi (e + 1)"
  shows "binade x = e"
proof -
  have "0 < (2::real) powi e" by simp
  with assms(1) have "0 < \<bar>x\<bar>" by linarith
  then have x: "x \<noteq> 0" by simp
  note b = binade_bounds [OF x]
  have "\<not> e + 1 \<le> binade x"
  proof
    assume "e + 1 \<le> binade x"
    then have "(2::real) powi (e + 1) \<le> 2 powi binade x"
      by (intro power_int_increasing) simp_all
    with b(1) assms(2) show False by linarith
  qed
  moreover have "\<not> binade x + 1 \<le> e"
  proof
    assume "binade x + 1 \<le> e"
    then have "(2::real) powi (binade x + 1) \<le> 2 powi e"
      by (intro power_int_increasing) simp_all
    with b(2) assms(1) show False by linarith
  qed
  ultimately show ?thesis by linarith
qed


lemma roundTiesToEven_of_int [simp]: "roundTiesToEven (of_int n) = n"
  by (simp add: roundTiesToEven_def)

lemma ulp_pos [simp]: "0 < ulp x"
  by (simp add: ulp_def)

lemma ulp_nonzero [simp]: "ulp x \<noteq> 0"
  using ulp_pos [of x] by linarith


lemma ulp_eqI:
  assumes "2 powi e \<le> \<bar>x\<bar>" and "\<bar>x\<bar> < 2 powi (e + 1)" and "- 1022 \<le> e"
  shows "ulp x = 2 powi (e - 52)"
proof -
  have "(2::real) powi (- 1022) \<le> 2 powi e"
    using assms(3) by (intro power_int_increasing) simp_all
  with assms(1) have "\<not> \<bar>x\<bar> < 2 powi (- 1022)" by linarith
  then show ?thesis
    using binade_unique [OF assms(1,2)] by (simp add: ulp_def)
qed


lemma binary64_zero [simp]: "binary64 0 = 0"
  by (simp add: binary64_def roundTiesToEven_def)

lemma binary64_of_int:
  assumes "\<bar>n\<bar> < 2 ^ 53"
  shows "binary64 (of_int n) = of_int n"
proof (cases "n = 0")
  case True
  then show ?thesis by simp
next
  case False
  define x :: real where "x = of_int n"
  have x: "x \<noteq> 0" using False by (simp add: x_def)
  have one: "1 \<le> \<bar>x\<bar>" using False by (simp add: x_def)
  have "\<bar>x\<bar> < 2 powi 53"
  proof -
    have "real_of_int \<bar>n\<bar> < real_of_int (2 ^ 53)" using assms by (simp only: of_int_less_iff)
    then show ?thesis by (simp add: x_def)
  qed
  have lo: "0 \<le> binade x"
  proof (rule ccontr)
    assume "\<not> 0 \<le> binade x"
    then have "binade x + 1 \<le> 0" by simp
    then have "(2::real) powi (binade x + 1) \<le> 2 powi 0"
      by (intro power_int_increasing) simp_all
    with binade_bounds(2) [OF x] one show False by simp
  qed
  have hi: "binade x \<le> 52"
  proof (rule ccontr)
    assume "\<not> binade x \<le> 52"
    then have "53 \<le> binade x" by simp
    then have "(2::real) powi 53 \<le> 2 powi binade x"
      by (intro power_int_increasing) simp_all
    with binade_bounds(1) [OF x] \<open>\<bar>x\<bar> < 2 powi 53\<close> show False by linarith
  qed
  have u: "ulp x = 2 powi (binade x - 52)"
    using ulp_eqI [OF binade_bounds [OF x]] lo by simp
  define k where "k = nat (52 - binade x)"
  have k: "binade x - 52 = - int k" using hi by (simp add: k_def)
  have u': "ulp x = 1 / 2 ^ k"
    by (simp only: u k power_int_minus power_int_of_nat) (simp add: field_simps)
  have "x / ulp x = of_int (n * 2 ^ k)"
    unfolding u' by (simp add: x_def)
  then have "roundTiesToEven (x / ulp x) = n * 2 ^ k"
    by (simp only: roundTiesToEven_of_int)
  then have "binary64 x = of_int (n * 2 ^ k) * (1 / 2 ^ k)"
    by (simp only: binary64_def u')
  then show ?thesis by (simp add: x_def)
qed







subsection \<open>Rounding to cents\<close>



lemma rangeResponse_fields:
  "averagePrice (rangeResponse toStr p u)
     = binary64 (Math_round (binary64 (p * 100)) / 100)"
  "minPrice (rangeResponse toStr p u)
     = binary64 (Math_round (binary64 (binary64
         (averagePrice (rangeResponse toStr p u) * binary64 (9 / 10)) * 100)) / 100)"
  "maxPrice (rangeResponse toStr p u)
     = binary64 (Math_round (binary64 (binary64
         (averagePrice (rangeResponse toStr p u) * binary64 (11 / 10)) * 100)) / 100)"
  "priceRange (rangeResponse toStr p u)
     = rupee @ toStr (minPrice (rangeResponse toStr p u)) @ ''-''
         @ toStr (maxPrice (rangeResponse toStr p u))"
  by (simp_all add: rangeResponse_def Let_def)



lemma round_cents_of_int:
  assumes "\<bar>n\<bar> \<le> 10 ^ 6"
  shows "binary64 (Math_round (binary64 (of_int n * 100)) / 100) = of_int n"
proof -
  have a: "\<bar>n * 100\<bar> < 2 ^ 53" and b: "\<bar>n\<bar> < 2 ^ 53" using assms by simp_all
  have "binary64 (of_int n * 100) = of_int (n * 100)"
    using binary64_of_int [OF a] by simp
  then have "Math_round (binary64 (of_int n * 100)) / 100 = of_int n"
    by (simp add: Math_round_def)
  then show ?thesis using binary64_of_int [OF b] by simp
qed

lemma findByName_throws_iff:
  "findByName lower xs n = Inl TypeError
     \<longleftrightarrow> xs \<noteq> [] \<and> (case n of JString str \<Rightarrow> False | _ \<Rightarrow> True)"
  by (cases n; cases xs) (simp_all add: findByName_string)

lemma averagePrice_fallback:
  "averagePrice (rangeResponse toStr (20 + (if a then 10 else if b then 5 else 0)) u)
     = 20 + (if a then 10 else if b then 5 else 0)"
proof -
  have "averagePrice (rangeResponse toStr (of_int n) u) = of_int n" if "\<bar>n\<bar> \<le> 10 ^ 6" for n
    using round_cents_of_int [OF that] by (simp add: rangeResponse_fields(1))
  from this [of 20] this [of 25] this [of 30] show ?thesis by simp
qed

lemma post_predict_price_store: "fst (snd (post_predict_price lower toStr s rs body)) = s"
proof (cases "unknownCropType lower s body")
  case True
  then show ?thesis by (simp add: post_unknown)
next
  case u: False
  show ?thesis
  proof (cases "lookupThrows lower s body")
    case True
    then show ?thesis by (simp add: post_throws)
  next
    case False
    show ?thesis
      by (simp add: post_resolved [OF u False] split_beta predictPrice_any_store)
  qed
qed

subsection \<open>The forecast series\<close>

lemma unitDraws_tail: "unitDraws rs \<Longrightarrow> unitDraws (\<lambda>k. rs (Suc k))"
  by (simp add: unitDraws_def)

lemma unitDraws_harmonic: "unitDraws harmonicDraws"
  by (simp add: unitDraws_def harmonicDraws_def)

lemma draw_range:
  assumes "0 \<le> u" "u < 1"
  shows "(of_int \<lfloor>u * 50\<rfloor> + 20 :: real) \<in> \<int>"
    and "20 \<le> (of_int \<lfloor>u * 50\<rfloor> + 20 :: real)"
    and "(of_int \<lfloor>u * 50\<rfloor> + 20 :: real) \<le> 69"
proof -
  show "(of_int \<lfloor>u * 50\<rfloor> + 20 :: real) \<in> \<int>" by simp
  have "0 \<le> \<lfloor>u * 50\<rfloor>" using assms(1) by simp
  then show "20 \<le> (of_int \<lfloor>u * 50\<rfloor> + 20 :: real)" by simp
  have "u * 50 < 50" using assms(2) by simp
  then have "\<lfloor>u * 50\<rfloor> < 50" by (simp add: floor_less_iff)
  then have "\<lfloor>u * 50\<rfloor> \<le> 49" by simp
  then have "(of_int \<lfloor>u * 50\<rfloor> :: real) \<le> 49" by (metis of_int_le_iff of_int_numeral)
  then show "(of_int \<lfloor>u * 50\<rfloor> + 20 :: real) \<le> 69" by simp
qed

lemma randomData_props:
  assumes "unitDraws rs"
  shows "length (fst (randomData ms rs)) = length ms
         \<and> (\<forall>v \<in> set (fst (randomData ms rs)). v \<in> \<int> \<and> 20 \<le> v \<and> v \<le> 69)
         \<and> unitDraws (snd (randomData ms rs))"
  using assms
proof (induction ms arbitrary: rs)
  case Nil
  then show ?case by simp
next
  case (Cons m ms)
  have t: "unitDraws (\<lambda>k. rs (Suc k))" using Cons.prems by (rule unitDraws_tail)
  have u: "0 \<le> rs 0" "rs 0 < 1" using Cons.prems by (simp_all add: unitDraws_def)
  note ih = Cons.IH [OF t]
  show ?case
    using ih draw_range [OF u]
    by (simp add: Math_random_def split_beta)
qed

lemma forecastDatasets_props:
  assumes "unitDraws rs" "length months = 6"
  shows "map cropId (fst (forecastDatasets months crops rs)) = map id_crop crops
         \<and> map cropName (fst (forecastDatasets months crops rs)) = map name crops
         \<and> (\<forall>d \<in> set (fst (forecastDatasets months crops rs)). seriesOf d)
         \<and> unitDraws (snd (forecastDatasets months crops rs))"
  using assms(1)
proof (induction crops arbitrary: rs)
  case Nil
  then show ?case by simp
next
  case (Cons crop crops)
  let ?step = "if name crop = ''Tomato'' then ([30, 45, 60, 70, 65, 55], rs)
            else if name crop = ''Rice'' then ([50, 55, 52, 50, 48, 45], rs)
            else if name crop = ''Onion'' then ([20, 25, 40, 50, 65, 70], rs)
            else randomData months rs"
  have r: "unitDraws (snd ?step)"
    using Cons.prems randomData_props [OF Cons.prems, of months] by simp
  have d: "seriesOf \<lparr>cropId = id_crop crop, cropName = name crop, data = fst ?step\<rparr>"
    using randomData_props [OF Cons.prems, of months] assms(2)
    by (simp add: seriesOf_def randomSeries_def)
  note ih = Cons.IH [OF r]
  have e: "forecastDatasets months (crop # crops) rs =
        (\<lparr>cropId = id_crop crop, cropName = name crop, data = fst ?step\<rparr>
            # fst (forecastDatasets months crops (snd ?step)),
         snd (forecastDatasets months crops (snd ?step)))"
    by (simp add: split_beta)
  show ?case
    unfolding e using ih d by simp
qed

lemma getForecastData_unfold:
  "getForecastData s rs =
     (\<lparr>labels = [''May'', ''Jun'', ''Jul'', ''Aug'', ''Sep'', ''Oct''],
       datasets = fst (forecastDatasets [''May'', ''Jun'', ''Jul'', ''Aug'', ''Sep'', ''Oct'']
                         (take 3 (Map_values (cropTypes s))) rs),
       demandGroups =
         \<lparr>high = [''Green Chillies'', ''Tomato'', ''Eggplant''],
          moderate = [''Rice'', ''Onion'', ''Cauliflower''],
          low = [''Potato'', ''Cabbage'', ''Carrots'']\<rparr>\<rparr>,
      s,
      snd (forecastDatasets [''May'', ''Jun'', ''Jul'', ''Aug'', ''Sep'', ''Oct'']
             (take 3 (Map_values (cropTypes s))) rs))"
  by (simp add: getForecastData_def getCropTypes_def split_beta Let_def)

lemma forecast_sample:
  "datasets (fst (getForecastData sampleStore harmonicDraws)) =
     [\<lparr>cropId = 1, cropName = ''Rice'', data = [50, 55, 52, 50, 48, 45]\<rparr>,
      \<lparr>cropId = 2, cropName = ''Wheat'', data = [45, 36, 32, 30, 28, 27]\<rparr>,
      \<lparr>cropId = 3, cropName = ''Tomato'', data = [30, 45, 60, 70, 65, 55]\<rparr>]"
  by (simp add: getForecastData_unfold sampleStore_crops Math_random_def harmonicDraws_def)

section \<open>The fallback price\<close>

text \<open>
  Claim C1. When no price-history entry matches the crop type, the location and the
  quality grade, all three by equality, \<open>predictPrice\<close> returns exactly 20 plus the
  bonus of the grade: 10 for "A", 5 for "B", 0 for any other string. No random factor is
  applied: the result does not depend on the draws, and no draw is consumed.
\<close>

theorem predictPrice_fallback:
  assumes "matchingHistory s c l q = []"
  shows "predictPrice s rs c l q =
           (20 + (if q = ''A'' then 10 else if q = ''B'' then 5 else 0), s, rs)"
  using assms by (simp add: predictPrice_unfold)

theorem predictPrice_fallback_witness:
  "matchingHistory sampleStore 1 ''pune'' ''A'' = []
   \<and> predictPrice sampleStore (\<lambda>k. 0) 1 ''pune'' ''A'' = (30, sampleStore, \<lambda>k. 0)"
proof -
  have h: "matchingHistory sampleStore 1 ''pune'' ''A'' = []"
    by (simp add: matchingHistory_def sampleStore_history)
  from predictPrice_fallback [OF h, of "\<lambda>k. 0"] h show ?thesis by simp
qed

section \<open>The mean of the most recent prices\<close>

text \<open>
  Claim C2. When \<open>N \<ge> 1\<close> entries match the crop type, the location and the quality
  grade, the prediction before the random factor (\<open>avgRecentPrice\<close>) is the arithmetic
  mean of the prices of the \<open>min N 3\<close> matching entries with the latest \<open>recordedDate\<close>:
  the entries averaged (\<open>recentPrices\<close>) are \<open>min N 3\<close> of the matching entries, in
  descending order of date, no matching entry left out is later than one of them, and
  \<open>predictPrice\<close> returns their mean times the factor \<open>1 + (u * 0.1 - 0.05)\<close> for the
  draw \<open>u\<close>.
\<close>

theorem predictPrice_mean_of_recent:
  assumes "qh = matchingHistory s c l q" and "qh \<noteq> []"
  shows "length (recentPrices qh) = min (length qh) 3
         \<and> mset (recentPrices qh) + mset (drop 3 (sortedHistory qh)) = mset qh
         \<and> sorted (map (\<lambda>h. - recordedDate h) (recentPrices qh))
         \<and> (\<forall>x \<in> set (recentPrices qh). \<forall>y \<in> set (drop 3 (sortedHistory qh)).
               recordedDate y \<le> recordedDate x)
         \<and> avgRecentPrice qh
             = sum_list (map price (recentPrices qh)) / real (min (length qh) 3)
         \<and> fst (predictPrice s rs c l q) = avgRecentPrice qh * (1 + (rs 0 * 0.1 - 0.05))"
proof -
  have "sorted (map (\<lambda>h. - recordedDate h) (take 3 (sortedHistory qh)))"
    using sorted_sortedHistory [of qh] by (simp add: take_map [symmetric] sorted_wrt_take)
  then have "sorted (map (\<lambda>h. - recordedDate h) (recentPrices qh))"
    by (simp add: recentPrices_take3)
  moreover have "fst (predictPrice s rs c l q)
                   = avgRecentPrice qh * (1 + (rs 0 * 0.1 - 0.05))"
    using assms by (simp add: predictPrice_unfold)
  ultimately show ?thesis
    using length_recentPrices mset_recent_older recent_latest avgRecentPrice_mean
    by blast
qed

theorem predictPrice_mean_of_recent_witness:
  "matchingHistory sampleStore 1 ''Pune'' ''A'' \<noteq> []
   \<and> length (matchingHistory sampleStore 1 ''Pune'' ''A'') = 4
   \<and> map price (recentPrices (matchingHistory sampleStore 1 ''Pune'' ''A'')) = [34, 32, 30]
   \<and> avgRecentPrice (matchingHistory sampleStore 1 ''Pune'' ''A'') = 32
   \<and> fst (predictPrice sampleStore (\<lambda>k. 1 / 2) 1 ''Pune'' ''A'') = 32"
proof -
  have h: "matchingHistory sampleStore 1 ''Pune'' ''A'' \<noteq> []"
    by (simp add: matchingHistory_def sampleStore_history)
  have r: "map price (recentPrices (matchingHistory sampleStore 1 ''Pune'' ''A''))
             = [34, 32, 30]"
    by (simp add: matchingHistory_def sampleStore_history recentPrices_def
        sortedHistory_def)
  have n: "length (matchingHistory sampleStore 1 ''Pune'' ''A'') = 4"
    by (simp add: matchingHistory_def sampleStore_history)
  from predictPrice_mean_of_recent [OF refl h, of "\<lambda>k. 1 / 2"] h r n
  show ?thesis by simp
qed

section \<open>Positivity\<close>

text \<open>
  Claim C3. If every price-history entry of the store has a price above 0, then for
  every crop type, location and quality, and every draw \<open>u\<close> of the random source between
  0 and 1 (so every factor between 0.95 and 1.05), \<open>predictPrice\<close> returns a strictly
  positive value.
\<close>

theorem predictPrice_positive:
  assumes "\<forall>h \<in> set (Map_values (priceHistory s)). 0 < price h"
    and "0 \<le> rs 0" and "rs 0 \<le> 1"
  shows "0 < fst (predictPrice s rs c l q)"
proof (cases "matchingHistory s c l q = []")
  case True
  then show ?thesis by (simp add: predictPrice_unfold)
next
  case False
  let ?qh = "matchingHistory s c l q"
  have "set (recentPrices ?qh) \<subseteq> set ?qh"
    using set_take_subset [of 3 "sortedHistory ?qh"]
    by (simp add: recentPrices_take3 sortedHistory_def)
  also have "\<dots> \<subseteq> set (Map_values (priceHistory s))"
    by (auto simp: matchingHistory_def)
  finally have pos: "\<forall>h \<in> set (recentPrices ?qh). 0 < price h"
    using assms(1) by blast
  have "recentPrices ?qh \<noteq> []"
    using False length_recentPrices [of ?qh] by (cases ?qh) auto
  then have "0 < sum_list (map price (recentPrices ?qh))"
    using pos by (rule sum_prices_pos)
  moreover have "0 < real (min (length ?qh) 3)"
    using False by (cases ?qh) auto
  ultimately have "0 < avgRecentPrice ?qh"
    by (simp add: avgRecentPrice_mean)
  moreover have "0 < 1 + (rs 0 * 0.1 - 0.05)"
    using assms(2) by simp
  ultimately show ?thesis
    using False by (simp add: predictPrice_unfold)
qed

theorem predictPrice_positive_witness:
  "list_all (\<lambda>h. 0 < price h) (Map_values (priceHistory sampleStore))
   \<and> 0 < fst (predictPrice sampleStore (\<lambda>k. 0) 1 ''Pune'' ''A'')
   \<and> fst (predictPrice sampleStore (\<lambda>k. 0) 1 ''Pune'' ''A'') = 32 * 0.95"
proof -
  have h: "\<forall>h \<in> set (Map_values (priceHistory sampleStore)). 0 < price h"
    by (simp add: sampleStore_history)
  have v: "avgRecentPrice (matchingHistory sampleStore 1 ''Pune'' ''A'') = 32"
    by (simp add: matchingHistory_def sampleStore_history avgRecentPrice_def
        recentPrices_def sortedHistory_def)
  have m: "matchingHistory sampleStore 1 ''Pune'' ''A'' \<noteq> []"
    by (simp add: matchingHistory_def sampleStore_history)
  have e: "fst (predictPrice sampleStore (\<lambda>k. 0) 1 ''Pune'' ''A'') = 32 * 0.95"
    using m v by (simp add: predictPrice_unfold)
  from predictPrice_positive [OF h, of "\<lambda>k. 0" 1 "''Pune''" "''A''"] h e
  show ?thesis by (simp add: list_all_iff)
qed

section \<open>The rounded range\<close>



section \<open>Invalid input\<close>

text \<open>
  Claim C5, as amended. The prediction request fails with status 400 exactly when
  either (a) the crop type id is absent or falsy, a truthy crop-type name is given and
  its lookup returns no stored crop type, which yields "Invalid crop type name", or (b)
  the lookup, if any, returns a crop type, and the crop type id in force after name
  resolution, the location or the quality is absent or falsy (0, the empty string,
  \<^verbatim>\<open>null\<close>, \<^verbatim>\<open>false\<close>), which yields "Missing required fields". On such a failure no
  prediction is returned, the store is as before and no draw is consumed. A lookup with
  a name that is not a string throws when crop types are stored; the request then fails
  with status 500, not 400.
\<close>

theorem post_predict_price_invalid_input:
  "((\<exists>m. fst (post_predict_price lower toStr s rs body) = Status400 m)
      \<longleftrightarrow> unknownCropType lower s body
          \<or> \<not> lookupThrows lower s body \<and> missingField lower s body)
   \<and> (unknownCropType lower s body \<longrightarrow>
      post_predict_price lower toStr s rs body
        = (Status400 ''Invalid crop type name'', s, rs))
   \<and> (\<not> unknownCropType lower s body \<and> \<not> lookupThrows lower s body
        \<and> missingField lower s body \<longrightarrow>
      post_predict_price lower toStr s rs body
        = (Status400 ''Missing required fields'', s, rs))
   \<and> (lookupThrows lower s body \<longrightarrow>
      post_predict_price lower toStr s rs body
        = (Status500 ''Internal server error'', s, rs))
   \<and> (lookupThrows lower s body \<longleftrightarrow>
        lookupMade body \<and> cropTypes s \<noteq> []
        \<and> (case body_cropTypeName body of JString str \<Rightarrow> False | _ \<Rightarrow> True))"
proof -
  let ?r = "post_predict_price lower toStr s rs body"
  have a: "unknownCropType lower s body \<longrightarrow> ?r = (Status400 ''Invalid crop type name'', s, rs)"
    by (simp add: post_unknown)
  have b: "\<not> unknownCropType lower s body \<and> \<not> lookupThrows lower s body
        \<and> missingField lower s body \<longrightarrow> ?r = (Status400 ''Missing required fields'', s, rs)"
    by (simp add: post_resolved missingField_def)
  have c: "lookupThrows lower s body \<longrightarrow> ?r = (Status500 ''Internal server error'', s, rs)"
    by (simp add: post_throws)
  have t: "lookupThrows lower s body \<longleftrightarrow>
        lookupMade body \<and> cropTypes s \<noteq> []
        \<and> (case body_cropTypeName body of JString str \<Rightarrow> False | _ \<Rightarrow> True)"
    by (auto simp: lookupThrows_def getCropTypeByName_def findByName_throws_iff Map_values_def)
  have d: "(\<exists>m. fst ?r = Status400 m)
      \<longleftrightarrow> unknownCropType lower s body
          \<or> \<not> lookupThrows lower s body \<and> missingField lower s body"
  proof (cases "unknownCropType lower s body")
    case True
    with a show ?thesis by simp
  next
    case u: False
    show ?thesis
    proof (cases "lookupThrows lower s body")
      case True
      with c u show ?thesis by simp
    next
      case n: False
      show ?thesis
      proof (cases "missingField lower s body")
        case True
        with b u n show ?thesis by simp
      next
        case False
        from post_accepted [OF u n False, of toStr rs] u n False show ?thesis by auto
      qed
    qed
  qed
  show ?thesis
    by (rule conjI [OF d conjI [OF a conjI [OF b conjI [OF c t]]]])
qed

theorem post_predict_price_invalid_input_witness:
  "unknownCropType asciiLower sampleStore maizeBody
   \<and> post_predict_price asciiLower centString sampleStore (\<lambda>k. 0) maizeBody
       = (Status400 ''Invalid crop type name'', sampleStore, \<lambda>k. 0)
   \<and> \<not> unknownCropType asciiLower sampleStore emptyLocationBody
   \<and> \<not> lookupThrows asciiLower sampleStore emptyLocationBody
   \<and> missingField asciiLower sampleStore emptyLocationBody
   \<and> post_predict_price asciiLower centString sampleStore (\<lambda>k. 0) emptyLocationBody
       = (Status400 ''Missing required fields'', sampleStore, \<lambda>k. 0)
   \<and> lookupThrows asciiLower sampleStore numericNameBody
   \<and> post_predict_price asciiLower centString sampleStore (\<lambda>k. 0) numericNameBody
       = (Status500 ''Internal server error'', sampleStore, \<lambda>k. 0)
   \<and> \<not> unknownCropType asciiLower sampleStore wheatBody
   \<and> \<not> lookupThrows asciiLower sampleStore wheatBody
   \<and> \<not> missingField asciiLower sampleStore wheatBody
   \<and> \<not> (\<exists>m. fst (post_predict_price asciiLower centString sampleStore (\<lambda>k. 0) wheatBody)
              = Status400 m)"
proof -
  have a: "unknownCropType asciiLower sampleStore maizeBody"
    by (simp add: unknownCropType_def lookupMade_def maizeBody_def lookup_maize)
  have b: "\<not> unknownCropType asciiLower sampleStore emptyLocationBody"
    "\<not> lookupThrows asciiLower sampleStore emptyLocationBody"
    by (simp_all add: unknownCropType_def lookupThrows_def lookupMade_def
        emptyLocationBody_def)
  have c: "missingField asciiLower sampleStore emptyLocationBody"
    by (simp add: missingField_def emptyLocationBody_def)
  have t: "lookupThrows asciiLower sampleStore numericNameBody"
    by (simp add: lookupThrows_def lookupMade_def numericNameBody_def lookup_123)
  have d: "\<not> unknownCropType asciiLower sampleStore wheatBody"
    "\<not> lookupThrows asciiLower sampleStore wheatBody"
    by (simp_all add: unknownCropType_def lookupThrows_def lookupMade_def wheatBody_def
        lookup_wheat)
  have e: "\<not> missingField asciiLower sampleStore wheatBody"
    by (simp add: missingField_def effectiveCropTypeId_def lookupMade_def wheatBody_def
        lookup_wheat)
  note inst = post_predict_price_invalid_input [of asciiLower centString sampleStore "\<lambda>k. 0"]
  have r1: "post_predict_price asciiLower centString sampleStore (\<lambda>k. 0) maizeBody
       = (Status400 ''Invalid crop type name'', sampleStore, \<lambda>k. 0)"
    by (rule inst [of maizeBody, THEN conjunct2, THEN conjunct1, THEN mp, OF a])
  have r2: "post_predict_price asciiLower centString sampleStore (\<lambda>k. 0) emptyLocationBody
       = (Status400 ''Missing required fields'', sampleStore, \<lambda>k. 0)"
    by (rule inst [of emptyLocationBody, THEN conjunct2, THEN conjunct2, THEN conjunct1,
          THEN mp, OF conjI [OF b(1) conjI [OF b(2) c]]])
  have r3: "post_predict_price asciiLower centString sampleStore (\<lambda>k. 0) numericNameBody
       = (Status500 ''Internal server error'', sampleStore, \<lambda>k. 0)"
    by (rule inst [of numericNameBody, THEN conjunct2, THEN conjunct2, THEN conjunct2,
          THEN conjunct1, THEN mp, OF t])
  have r4: "\<not> (\<exists>m. fst (post_predict_price asciiLower centString sampleStore (\<lambda>k. 0) wheatBody)
              = Status400 m)"
  proof -
    have "\<not> (unknownCropType asciiLower sampleStore wheatBody
          \<or> \<not> lookupThrows asciiLower sampleStore wheatBody
              \<and> missingField asciiLower sampleStore wheatBody)"
      using d e by simp
    with inst [of wheatBody, THEN conjunct1] show ?thesis by blast
  qed
  show ?thesis
    by (intro conjI a b c t d e r1 r2 r3 r4)
qed

text \<open>
  The claim as stated, on absent fields, fails. A request with the crop type id 1, the
  quality "A" and an empty location, and a request with the crop type id 0, a location and
  a quality, carry all three fields and name no crop type, and both are refused with
  "Missing required fields". A request with the name 123 and no id gives a name that
  resolves to no stored crop type, and it fails with status 500, not with "Invalid crop
  type name".
\<close>

theorem post_predict_price_absent_counterexample:
  "fst (post_predict_price asciiLower centString sampleStore (\<lambda>k. 0) emptyLocationBody)
     = Status400 ''Missing required fields''
   \<and> \<not> claimed_unknownCropType asciiLower sampleStore emptyLocationBody
   \<and> \<not> claimed_missingField asciiLower sampleStore emptyLocationBody
   \<and> fst (post_predict_price asciiLower centString sampleStore (\<lambda>k. 0) zeroIdBody)
     = Status400 ''Missing required fields''
   \<and> \<not> claimed_unknownCropType asciiLower sampleStore zeroIdBody
   \<and> \<not> claimed_missingField asciiLower sampleStore zeroIdBody
   \<and> claimed_unknownCropType asciiLower sampleStore numericNameBody
   \<and> fst (post_predict_price asciiLower centString sampleStore (\<lambda>k. 0) numericNameBody)
     = Status500 ''Internal server error''"
proof -
  have a: "fst (post_predict_price asciiLower centString sampleStore (\<lambda>k. 0) emptyLocationBody)
     = Status400 ''Missing required fields''"
    "fst (post_predict_price asciiLower centString sampleStore (\<lambda>k. 0) zeroIdBody)
     = Status400 ''Missing required fields''"
    by (simp_all add: emptyLocationBody_def zeroIdBody_def post_predict_price_def)
  have b: "\<not> claimed_unknownCropType asciiLower sampleStore emptyLocationBody"
    "\<not> claimed_missingField asciiLower sampleStore emptyLocationBody"
    "\<not> claimed_unknownCropType asciiLower sampleStore zeroIdBody"
    "\<not> claimed_missingField asciiLower sampleStore zeroIdBody"
    by (simp_all add: emptyLocationBody_def zeroIdBody_def claimed_unknownCropType_def
        claimed_missingField_def resolvedCropTypeId_def)
  have c: "claimed_unknownCropType asciiLower sampleStore numericNameBody"
    by (simp add: numericNameBody_def claimed_unknownCropType_def lookup_123)
  have t: "lookupThrows asciiLower sampleStore numericNameBody"
    by (simp add: lookupThrows_def lookupMade_def numericNameBody_def lookup_123)
  have d: "fst (post_predict_price asciiLower centString sampleStore (\<lambda>k. 0) numericNameBody)
     = Status500 ''Internal server error''"
    by (simp add: post_throws [OF t])
  from a b c d show ?thesis by simp
qed

section \<open>The forecast\<close>

text \<open>
  Claim C6. With draws in the range of \<^verbatim>\<open>Math.random\<close>, \<open>getForecastData\<close> returns the six
  labels May to October and one dataset for each of the first three crop types in
  stored order, with that crop type's id and name. Every series has six values: the one
  of Tomato is 30, 45, 60, 70, 65, 55, the one of Rice is 50, 55, 52, 50, 48, 45, the one
  of Onion is 20, 25, 40, 50, 65, 70, and the one of any other crop consists of integers
  between 20 and 69. In particular, when the crop types were stored in the order Rice,
  Wheat, Tomato, the three series are the curve of Rice, six integers between 20 and 69
  for Wheat, and the curve of Tomato.
\<close>

theorem getForecastData_topCrops:
  assumes "unitDraws rs"
  shows "labels (fst (getForecastData s rs)) = [''May'', ''Jun'', ''Jul'', ''Aug'', ''Sep'', ''Oct'']
     \<and> map cropId (datasets (fst (getForecastData s rs)))
         = map id_crop (take 3 (Map_values (cropTypes s)))
     \<and> map cropName (datasets (fst (getForecastData s rs)))
         = map name (take 3 (Map_values (cropTypes s)))
     \<and> (\<forall>d \<in> set (datasets (fst (getForecastData s rs))).
           length (data d) = 6 
           \<and> (cropName d = ''Tomato'' \<longrightarrow> data d = [30, 45, 60, 70, 65, 55])
           \<and> (cropName d = ''Rice'' \<longrightarrow> data d = [50, 55, 52, 50, 48, 45])
           \<and> (cropName d = ''Onion'' \<longrightarrow> data d = [20, 25, 40, 50, 65, 70])
           \<and> (cropName d \<notin> {''Tomato'', ''Rice'', ''Onion''} \<longrightarrow>
                (\<forall>v \<in> set (data d). v \<in> \<int> \<and> 20 \<le> v \<and> v \<le> 69)))
     \<and> (map name (take 3 (Map_values (cropTypes s))) = [''Rice'', ''Wheat'', ''Tomato'']
          \<longrightarrow> data (datasets (fst (getForecastData s rs)) ! 0) = [50, 55, 52, 50, 48, 45]
              \<and> randomSeries (data (datasets (fst (getForecastData s rs)) ! 1))
              \<and> data (datasets (fst (getForecastData s rs)) ! 2) = [30, 45, 60, 70, 65, 55])"
proof -
  let ?ds = "datasets (fst (getForecastData s rs))"
  let ?top = "take 3 (Map_values (cropTypes s))"
  note p = forecastDatasets_props [OF assms, of "[''May'', ''Jun'', ''Jul'', ''Aug'', ''Sep'', ''Oct'']" ?top]
  have l: "labels (fst (getForecastData s rs)) = [''May'', ''Jun'', ''Jul'', ''Aug'', ''Sep'', ''Oct'']"
    by (simp add: getForecastData_unfold)
  have i: "map cropId ?ds = map id_crop ?top"
    using p by (simp add: getForecastData_unfold)
  have n: "map cropName ?ds = map name ?top"
    using p by (simp add: getForecastData_unfold)
  have a: "\<forall>d \<in> set ?ds. seriesOf d"
    using p by (simp add: getForecastData_unfold)
  have g: "\<forall>d \<in> set ?ds.
           length (data d) = 6 
           \<and> (cropName d = ''Tomato'' \<longrightarrow> data d = [30, 45, 60, 70, 65, 55])
           \<and> (cropName d = ''Rice'' \<longrightarrow> data d = [50, 55, 52, 50, 48, 45])
           \<and> (cropName d = ''Onion'' \<longrightarrow> data d = [20, 25, 40, 50, 65, 70])
           \<and> (cropName d \<notin> {''Tomato'', ''Rice'', ''Onion''} \<longrightarrow>
                (\<forall>v \<in> set (data d). v \<in> \<int> \<and> 20 \<le> v \<and> v \<le> 69))"
  proof
    fix d assume "d \<in> set ?ds"
    with a have "seriesOf d" by blast
    then show "length (data d) = 6 
           \<and> (cropName d = ''Tomato'' \<longrightarrow> data d = [30, 45, 60, 70, 65, 55])
           \<and> (cropName d = ''Rice'' \<longrightarrow> data d = [50, 55, 52, 50, 48, 45])
           \<and> (cropName d = ''Onion'' \<longrightarrow> data d = [20, 25, 40, 50, 65, 70])
           \<and> (cropName d \<notin> {''Tomato'', ''Rice'', ''Onion''} \<longrightarrow>
                (\<forall>v \<in> set (data d). v \<in> \<int> \<and> 20 \<le> v \<and> v \<le> 69))"
      by (simp add: seriesOf_def randomSeries_def split: if_splits)
  qed
  have sd: "map name ?top = [''Rice'', ''Wheat'', ''Tomato'']
          \<longrightarrow> data (?ds ! 0) = [50, 55, 52, 50, 48, 45]
              \<and> randomSeries (data (?ds ! 1))
              \<and> data (?ds ! 2) = [30, 45, 60, 70, 65, 55]"
  proof
    assume h: "map name ?top = [''Rice'', ''Wheat'', ''Tomato'']"
    with n have m: "map cropName ?ds = [''Rice'', ''Wheat'', ''Tomato'']" by simp
    then obtain d1 d2 d3 where ds: "?ds = [d1, d2, d3]"
      and c: "cropName d1 = ''Rice''" "cropName d2 = ''Wheat''" "cropName d3 = ''Tomato''"
      by (auto simp: map_eq_Cons_conv)
    have "seriesOf d1" "seriesOf d2" "seriesOf d3"
      using a unfolding ds by simp_all
    with c have "data d1 = [50, 55, 52, 50, 48, 45]" "randomSeries (data d2)"
      "data d3 = [30, 45, 60, 70, 65, 55]"
      by (simp_all add: seriesOf_def)
    then show "data (?ds ! 0) = [50, 55, 52, 50, 48, 45]
              \<and> randomSeries (data (?ds ! 1))
              \<and> data (?ds ! 2) = [30, 45, 60, 70, 65, 55]"
      unfolding ds by simp
  qed
  show ?thesis
    by (rule conjI [OF l conjI [OF i conjI [OF n conjI [OF g sd]]]])
qed

theorem getForecastData_topCrops_witness:
  "unitDraws harmonicDraws
   \<and> map name (take 3 (Map_values (cropTypes sampleStore))) = [''Rice'', ''Wheat'', ''Tomato'']
   \<and> map cropName (datasets (fst (getForecastData sampleStore harmonicDraws)))
       = [''Rice'', ''Wheat'', ''Tomato'']
   \<and> data (datasets (fst (getForecastData sampleStore harmonicDraws)) ! 0)
       = [50, 55, 52, 50, 48, 45]
   \<and> randomSeries (data (datasets (fst (getForecastData sampleStore harmonicDraws)) ! 1))
   \<and> data (datasets (fst (getForecastData sampleStore harmonicDraws)) ! 1)
       = [45, 36, 32, 30, 28, 27]
   \<and> data (datasets (fst (getForecastData sampleStore harmonicDraws)) ! 2)
       = [30, 45, 60, 70, 65, 55]"
proof -
  have a: "map name (take 3 (Map_values (cropTypes sampleStore))) = [''Rice'', ''Wheat'', ''Tomato'']"
    by (simp add: sampleStore_crops)
  have b: "data (datasets (fst (getForecastData sampleStore harmonicDraws)) ! 1)
       = [45, 36, 32, 30, 28, 27]"
    by (simp add: forecast_sample)
  from getForecastData_topCrops [OF unitDraws_harmonic, of sampleStore] a b unitDraws_harmonic
  show ?thesis by simp
qed

section \<open>The demand groups\<close>

text \<open>
  Claim C7. In every state of the store and for every sequence of draws, the
  \<open>demandGroups\<close> of the forecast are the same three fixed lists of crop names; the high
  group is exactly Green Chillies, Tomato and Eggplant. Neither the price history nor
  any other collection enters.
\<close>

theorem demandGroups_fixed:
  "demandGroups (fst (getForecastData s rs))
     = \<lparr>high = [''Green Chillies'', ''Tomato'', ''Eggplant''],
        moderate = [''Rice'', ''Onion'', ''Cauliflower''],
        low = [''Potato'', ''Cabbage'', ''Carrots'']\<rparr>
   \<and> set (high (demandGroups (fst (getForecastData s rs))))
       = {''Green Chillies'', ''Tomato'', ''Eggplant''}"
  by (simp add: getForecastData_unfold)

section \<open>The store is only read\<close>

text \<open>
  Claim C8. In every state of the store, \<open>predictPrice\<close>, \<open>getForecastData\<close> and the
  retrieval of the price history leave the store as it was: every collection and every
  counter is unchanged, so no record is created, changed or deleted and nothing computed
  is kept. The same holds for the whole prediction request, whatever its body, and for
  the predictor on arguments of any type.
\<close>

theorem prediction_and_forecast_read_only:
  "fst (snd (predictPrice s rs c l q)) = s
   \<and> fst (snd (getForecastData s rs')) = s
   \<and> snd (getPriceHistoryByCropTypeAndLocation s c l) = s
   \<and> fst (snd (post_predict_price lower toStr s rs body)) = s
   \<and> fst (snd (predictPrice_any s rs c' l' q')) = s
   \<and> snd (getPriceHistoryByCropTypeAndLocation_any s c' l') = s"
  by (simp add: predictPrice_unfold getForecastData_unfold getPriceHistory_store
      post_predict_price_store predictPrice_any_store
      getPriceHistoryByCropTypeAndLocation_any_def)

theorem prediction_and_forecast_read_only_witness:
  "fst (snd (predictPrice sampleStore harmonicDraws 1 ''Pune'' ''A'')) = sampleStore
   \<and> fst (snd (getForecastData sampleStore harmonicDraws)) = sampleStore
   \<and> snd (getPriceHistoryByCropTypeAndLocation sampleStore 1 ''Pune'') = sampleStore
   \<and> fst (snd (post_predict_price asciiLower centString sampleStore harmonicDraws wheatBody))
       = sampleStore
   \<and> fst (snd (post_predict_price asciiLower centString sampleStore harmonicDraws
                  numericNameBody)) = sampleStore
   \<and> snd (createPriceHistory sampleStore 0 (observation 1 ''Pune'' 36 ''A'' 700))
       \<noteq> sampleStore"
  using prediction_and_forecast_read_only
    [of sampleStore harmonicDraws 1 "''Pune''" "''A''" harmonicDraws asciiLower centString
       wheatBody]
    prediction_and_forecast_read_only
    [of sampleStore harmonicDraws 1 "''Pune''" "''A''" harmonicDraws asciiLower centString
       numericNameBody]
    createPriceHistory_changes [of sampleStore 0 "observation 1 ''Pune'' 36 ''A'' 700"]
  by blast

section \<open>A crop type id that is not stored\<close>

text \<open>
  Claim C9, as amended. For every numeric crop type id other than 0 that identifies no
  stored crop type, with a truthy location and a truthy quality (present and non-empty),
  in a store whose price history refers to stored crop types only, the request does not
  fail: \<open>predictPrice\<close> is called, matches no history, and the response is the range
  built from the fallback price 20 plus the bonus of the quality, which is also its
  \<open>averagePrice\<close>. The error "Invalid crop type name" arises only when the crop type id
  is absent or falsy and a truthy name is given.
\<close>

theorem numeric_cropTypeId_fallback:
  assumes "cid \<noteq> 0"
    and "cid \<notin> (\<lambda>c. of_int (id_crop c)) ` set (Map_values (cropTypes s))"
    and "\<forall>h \<in> set (Map_values (priceHistory s)).
            cropTypeId h \<in> id_crop ` set (Map_values (cropTypes s))"
    and "truthy l" and "truthy q"
  shows "post_predict_price lower toStr s rs
           \<lparr>body_cropTypeId = JNumber cid, body_cropTypeName = nm,
            body_location = l, body_quality = q\<rparr>
         = (Status200
              (rangeResponse toStr
                 (20 + (if q = JString ''A'' then 10 else if q = JString ''B'' then 5 else 0))
                 (rs 0)),
            s, \<lambda>k. rs (Suc k))
       \<and> averagePrice
           (rangeResponse toStr
              (20 + (if q = JString ''A'' then 10 else if q = JString ''B'' then 5 else 0))
              (rs 0))
         = 20 + (if q = JString ''A'' then 10 else if q = JString ''B'' then 5 else 0)
       \<and> (\<forall>body. fst (post_predict_price lower toStr s rs body)
                     = Status400 ''Invalid crop type name''
            \<longrightarrow> \<not> truthy (body_cropTypeId body) \<and> truthy (body_cropTypeName body))"
proof -
  let ?body = "\<lparr>body_cropTypeId = JNumber cid, body_cropTypeName = nm,
            body_location = l, body_quality = q\<rparr>"
  have m: "\<forall>h \<in> set (Map_values (priceHistory s)). JNumber (of_int (cropTypeId h)) \<noteq> JNumber cid"
  proof
    fix h
    assume "h \<in> set (Map_values (priceHistory s))"
    with assms(3) have "cropTypeId h \<in> id_crop ` set (Map_values (cropTypes s))" by blast
    with assms(2) show "JNumber (of_int (cropTypeId h)) \<noteq> JNumber cid" by auto
  qed
  have u: "\<not> unknownCropType lower s ?body" and t: "\<not> lookupThrows lower s ?body"
    using assms(1) by (simp_all add: unknownCropType_def lookupThrows_def lookupMade_def)
  have e: "effectiveCropTypeId lower s ?body = JNumber cid"
    using assms(1) by (simp add: effectiveCropTypeId_def lookupMade_def)
  have "post_predict_price lower toStr s rs ?body
         = (Status200
              (rangeResponse toStr
                 (20 + (if q = JString ''A'' then 10 else if q = JString ''B'' then 5 else 0))
                 (rs 0)),
            s, \<lambda>k. rs (Suc k))"
    using assms(1,4,5)
    by (simp add: post_resolved [OF u t] e predictPrice_any_fallback [OF m] Math_random_def)
  moreover have "\<forall>body. fst (post_predict_price lower toStr s rs body)
                     = Status400 ''Invalid crop type name''
            \<longrightarrow> \<not> truthy (body_cropTypeId body) \<and> truthy (body_cropTypeName body)"
  proof (intro allI impI)
    fix body
    assume "fst (post_predict_price lower toStr s rs body)
              = Status400 ''Invalid crop type name''"
    then have "unknownCropType lower s body"
      by (rule invalid_name_only_from_name)
    then show "\<not> truthy (body_cropTypeId body) \<and> truthy (body_cropTypeName body)"
      by (simp add: unknownCropType_def lookupMade_def)
  qed
  ultimately show ?thesis
    using averagePrice_fallback by blast
qed

theorem numeric_cropTypeId_fallback_witness:
  "(99 :: real) \<noteq> 0
   \<and> 99 \<notin> (\<lambda>c. of_int (id_crop c) :: real) ` set (Map_values (cropTypes sampleStore))
   \<and> list_all (\<lambda>h. cropTypeId h \<in> id_crop ` set (Map_values (cropTypes sampleStore)))
         (Map_values (priceHistory sampleStore))
   \<and> truthy (JString ''Pune'') \<and> truthy (JString ''B'')
   \<and> post_predict_price asciiLower centString sampleStore (\<lambda>k. 0)
        \<lparr>body_cropTypeId = JNumber 99, body_cropTypeName = JUndefined,
         body_location = JString ''Pune'', body_quality = JString ''B''\<rparr>
       = (Status200 (rangeResponse centString 25 0), sampleStore, \<lambda>k. 0)
   \<and> averagePrice (rangeResponse centString 25 0) = 25"
proof -
  have a: "(99 :: real) \<noteq> 0" by simp
  have b: "99 \<notin> (\<lambda>c. of_int (id_crop c) :: real) ` set (Map_values (cropTypes sampleStore))"
    by (simp add: sampleStore_crops)
  have c: "\<forall>h \<in> set (Map_values (priceHistory sampleStore)).
         cropTypeId h \<in> id_crop ` set (Map_values (cropTypes sampleStore))"
    by (simp add: sampleStore_crops sampleStore_history)
  have l: "truthy (JString ''Pune'')" and q: "truthy (JString ''B'')" by simp_all
  from numeric_cropTypeId_fallback
         [OF a b c l q, of asciiLower centString "\<lambda>k. 0" JUndefined] a b c
  show ?thesis by (simp add: list_all_iff)
qed

text \<open>
  The claim as stated fails for the crop type id 0, which identifies no stored crop type
  and is refused with "Missing required fields", and in a store whose price history has
  an entry for a crop type that is not stored: there the id 99 identifies no crop type
  and the request returns the range built from the observed price 50.
\<close>

theorem numeric_cropTypeId_counterexample:
  "0 \<notin> id_crop ` set (Map_values (cropTypes sampleStore))
   \<and> fst (post_predict_price asciiLower centString sampleStore (\<lambda>k. 0) zeroIdBody)
       = Status400 ''Missing required fields''
   \<and> 99 \<notin> id_crop ` set (Map_values (cropTypes danglingStore))
   \<and> fst (post_predict_price asciiLower centString danglingStore (\<lambda>k. 1 / 2) strayIdBody)
       = Status200 (rangeResponse centString 50 (1 / 2))
   \<and> averagePrice (rangeResponse centString 50 (1 / 2)) = 50"
proof -
  have a: "0 \<notin> id_crop ` set (Map_values (cropTypes sampleStore))"
    by (simp add: sampleStore_crops)
  have b: "fst (post_predict_price asciiLower centString sampleStore (\<lambda>k. 0) zeroIdBody)
       = Status400 ''Missing required fields''"
    by (simp add: zeroIdBody_def post_predict_price_def)
  have c: "99 \<notin> id_crop ` set (Map_values (cropTypes danglingStore))"
    by (simp add: danglingStore_crops sampleStore_crops)
  have m: "matchingHistory danglingStore 99 ''Pune'' ''A'' =
     [\<lparr>id_history = 7, cropTypeId = 99, location = ''Pune'', price = 50, quality = ''A'',
        recordedDate = 700\<rparr>]"
    by (simp add: matchingHistory_def danglingStore_history sampleStore_history)
  have p: "predictPrice_any danglingStore (\<lambda>k. 1 / 2) (JNumber 99) (JString ''Pune'')
             (JString ''A'') = (50, danglingStore, \<lambda>k. 1 / 2)"
    using predictPrice_any_typed [of danglingStore "\<lambda>k. 1 / 2" 99 "''Pune''" "''A''"]
    by (simp add: predictPrice_unfold m avgRecentPrice_def recentPrices_def
        sortedHistory_def)
  have d: "fst (post_predict_price asciiLower centString danglingStore (\<lambda>k. 1 / 2)
                  strayIdBody)
       = Status200 (rangeResponse centString 50 (1 / 2))"
    by (simp add: strayIdBody_def post_predict_price_def p Math_random_def)
  have e: "averagePrice (rangeResponse centString 50 (1 / 2)) = 50"
    using round_cents_of_int [of 50] by (simp add: rangeResponse_fields(1))
  from a b c d e show ?thesis by blast
qed

section \<open>Names are matched without regard to letter case\<close>

text \<open>
  Claim C10. Whatever function lowercases strings: for every stored crop type \<open>c\<close> and
  every string whose lowercasing equals the lowercasing of the name of \<open>c\<close>,
  \<open>getCropTypeByName\<close> returns a stored crop type whose lowercased name is the
  lowercased string. A prediction request that gives this string as the crop-type name,
  and no id, therefore does not fail with "Invalid crop type name", and it returns a
  prediction when the string, the location and the quality are truthy and no stored
  crop type has the id 0. The retrieval of the price history, in contrast, returns only
  entries whose location is the requested string itself.
\<close>

theorem getCropTypeByName_case_insensitive:
  assumes "c \<in> set (Map_values (cropTypes s))"
    and "lower str = lower (name c)"
  shows "(\<exists>c'. getCropTypeByName lower s (JString str) = (Inr (Some c'), s)
            \<and> c' \<in> set (Map_values (cropTypes s))
            \<and> lower (name c') = lower str)
         \<and> fst (post_predict_price lower toStr s rs
                  \<lparr>body_cropTypeId = JUndefined, body_cropTypeName = JString str,
                   body_location = loc, body_quality = qual\<rparr>)
             \<noteq> Status400 ''Invalid crop type name''
         \<and> (str \<noteq> [] \<and> truthy loc \<and> truthy qual
              \<and> list_all (\<lambda>c'. id_crop c' \<noteq> 0) (Map_values (cropTypes s))
             \<longrightarrow> (\<exists>p. fst (post_predict_price lower toStr s rs
                          \<lparr>body_cropTypeId = JUndefined, body_cropTypeName = JString str,
                           body_location = loc, body_quality = qual\<rparr>) = Status200 p))
         \<and> (\<forall>h \<in> set (fst (getPriceHistoryByCropTypeAndLocation s cid l)). location h = l)"
proof -
  let ?body = "\<lparr>body_cropTypeId = JUndefined, body_cropTypeName = JString str,
                   body_location = loc, body_quality = qual\<rparr>"
  have f: "\<exists>c'. getCropTypeByName lower s (JString str) = (Inr (Some c'), s)
            \<and> c' \<in> set (Map_values (cropTypes s))
            \<and> lower (name c') = lower str"
    using find_lower [OF assms] by (simp add: getCropTypeByName_def findByName_string)
  then have u: "\<not> unknownCropType lower s ?body" and t: "\<not> lookupThrows lower s ?body"
    by (auto simp: unknownCropType_def lookupThrows_def)
  then have n: "fst (post_predict_price lower toStr s rs ?body)
                  \<noteq> Status400 ''Invalid crop type name''"
    using invalid_name_only_from_name by blast
  have ok: "str \<noteq> [] \<and> truthy loc \<and> truthy qual
              \<and> list_all (\<lambda>c'. id_crop c' \<noteq> 0) (Map_values (cropTypes s))
             \<longrightarrow> (\<exists>p. fst (post_predict_price lower toStr s rs ?body) = Status200 p)"
  proof
    assume h: "str \<noteq> [] \<and> truthy loc \<and> truthy qual
              \<and> list_all (\<lambda>c'. id_crop c' \<noteq> 0) (Map_values (cropTypes s))"
    from f obtain c' where c': "getCropTypeByName lower s (JString str) = (Inr (Some c'), s)"
      "c' \<in> set (Map_values (cropTypes s))" by blast
    with h have "id_crop c' \<noteq> 0" by (simp add: list_all_iff)
    with h c'(1) have "\<not> missingField lower s ?body"
      by (simp add: missingField_def effectiveCropTypeId_def lookupMade_def)
    with u t show "\<exists>p. fst (post_predict_price lower toStr s rs ?body) = Status200 p"
      by (rule post_accepted)
  qed
  have e: "\<forall>h \<in> set (fst (getPriceHistoryByCropTypeAndLocation s cid l)). location h = l"
    by (simp add: getPriceHistoryByCropTypeAndLocation_def)
  show ?thesis
    by (rule conjI [OF f conjI [OF n conjI [OF ok e]]])
qed

theorem getCropTypeByName_case_insensitive_witness:
  "\<lparr>id_crop = 1, name = ''Rice''\<rparr> \<in> set (Map_values (cropTypes sampleStore))
   \<and> asciiLower ''rICE'' = asciiLower (name \<lparr>id_crop = 1, name = ''Rice''\<rparr>)
   \<and> list_all (\<lambda>c'. id_crop c' \<noteq> 0) (Map_values (cropTypes sampleStore))
   \<and> getCropTypeByName asciiLower sampleStore (JString ''rICE'')
       = (Inr (Some \<lparr>id_crop = 1, name = ''Rice''\<rparr>), sampleStore)
   \<and> fst (post_predict_price asciiLower centString sampleStore (\<lambda>k. 1 / 2)
            \<lparr>body_cropTypeId = JUndefined, body_cropTypeName = JString ''rICE'',
             body_location = JString ''Pune'', body_quality = JString ''A''\<rparr>)
       = Status200 (rangeResponse centString 32 (1 / 2))
   \<and> fst (getPriceHistoryByCropTypeAndLocation sampleStore 1 ''pune'') = []"
proof -
  have a: "\<lparr>id_crop = 1, name = ''Rice''\<rparr> \<in> set (Map_values (cropTypes sampleStore))"
    by (simp add: sampleStore_crops)
  have b: "asciiLower ''rICE'' = asciiLower (name \<lparr>id_crop = 1, name = ''Rice''\<rparr>)"
    by (simp add: asciiLower_def asciiLower_char_def)
  have c: "getCropTypeByName asciiLower sampleStore (JString ''rICE'')
       = (Inr (Some \<lparr>id_crop = 1, name = ''Rice''\<rparr>), sampleStore)"
    using lookup_rICE getCropTypeByName_pair [of asciiLower sampleStore "JString ''rICE''"]
    by simp
  have d: "fst (getPriceHistoryByCropTypeAndLocation sampleStore 1 ''pune'') = []"
    by (simp add: getPriceHistoryByCropTypeAndLocation_def sampleStore_history)
  have e: "list_all (\<lambda>c'. id_crop c' \<noteq> 0) (Map_values (cropTypes sampleStore))"
    by (simp add: sampleStore_crops)
  from getCropTypeByName_case_insensitive
         [OF a b, of centString "\<lambda>k. 1 / 2" "JString ''Pune''" "JString ''A''"]
    a b c d e rice_request
  show ?thesis by blast
qed

end
